theory Spec2Isabelle
  imports Main "HOL-Library.Word" "HOL-Library.Signed_Division"
begin

unbundle bit_operations_syntax

section \<open>Data model (include/pcie-audio.h)\<close>

type_synonym u32 = "32 word"
type_synonym u64 = "64 word"

text \<open>
  Widths follow the LP64 kernel ABI: \<open>unsigned int\<close> and \<open>u32\<close> are 32 bits,
  \<open>unsigned long\<close>, \<open>size_t\<close> and \<open>dma_addr_t\<close> are 64 bits. \<open>ktime_t\<close> is a
  signed nanosecond count; no claim depends on its overflow, so it is an \<open>int\<close>.
\<close>

subsection \<open>Hardware capabilities\<close>

definition MAX_CHANNELS :: nat where "MAX_CHANNELS = 8"
definition MAX_BUFFER_SIZE :: nat where "MAX_BUFFER_SIZE = 256 * 1024"
definition MIN_PERIOD_SIZE :: nat where "MIN_PERIOD_SIZE = 1024"
definition MAX_PERIOD_SIZE :: nat where "MAX_PERIOD_SIZE = 32 * 1024"
definition MIN_PERIODS :: nat where "MIN_PERIODS = 2"
definition MAX_PERIODS :: nat where "MAX_PERIODS = 32"
definition DMA_DESC_COUNT :: u32 where "DMA_DESC_COUNT = 32"

subsection \<open>Register offsets\<close>

text \<open>A register is named by its byte offset into the mapped window \<open>reg_base\<close>.\<close>

definition REG_CTRL_FORMAT :: nat where "REG_CTRL_FORMAT = 0x000"
definition REG_CTRL_SAMPLE_FAMILY :: nat where "REG_CTRL_SAMPLE_FAMILY = 0x004"
definition REG_CTRL_PB_ENABLE :: nat where "REG_CTRL_PB_ENABLE = 0x018"
definition REG_CTRL_CAP_ENABLE :: nat where "REG_CTRL_CAP_ENABLE = 0x01C"
definition REG_CTRL_RESET :: nat where "REG_CTRL_RESET = 0x020"
definition REG_CTRL_TARGET_RATE :: nat where "REG_CTRL_TARGET_RATE = 0x034"
definition REG_CTRL_SYNC_TIMEOUT :: nat where "REG_CTRL_SYNC_TIMEOUT = 0x058"

definition REG_DMA_PB_DESC_BASE :: nat where "REG_DMA_PB_DESC_BASE = 0x100"
definition REG_DMA_PB_DESC_COUNT :: nat where "REG_DMA_PB_DESC_COUNT = 0x108"
definition REG_DMA_PB_SIZE :: nat where "REG_DMA_PB_SIZE = 0x110"
definition REG_DMA_PB_IRQ_EN :: nat where "REG_DMA_PB_IRQ_EN = 0x114"
definition REG_DMA_PB_THRESHOLD :: nat where "REG_DMA_PB_THRESHOLD = 0x118"

definition REG_DMA_CAP_DESC_BASE :: nat where "REG_DMA_CAP_DESC_BASE = 0x200"
definition REG_DMA_CAP_DESC_COUNT :: nat where "REG_DMA_CAP_DESC_COUNT = 0x208"
definition REG_DMA_CAP_SIZE :: nat where "REG_DMA_CAP_SIZE = 0x210"
definition REG_DMA_CAP_IRQ_EN :: nat where "REG_DMA_CAP_IRQ_EN = 0x214"
definition REG_DMA_CAP_THRESHOLD :: nat where "REG_DMA_CAP_THRESHOLD = 0x218"

definition REG_STATUS_LOCKED :: nat where "REG_STATUS_LOCKED = 0x300"
definition REG_STATUS_PB_UNDERRUN :: nat where "REG_STATUS_PB_UNDERRUN = 0x30C"
definition REG_STATUS_CAP_OVERRUN :: nat where "REG_STATUS_CAP_OVERRUN = 0x310"
definition REG_STATUS_DMA_ERROR :: nat where "REG_STATUS_DMA_ERROR = 0x314"

text \<open>
  \<open>REG_DMA_CONFIG\<close> and \<open>REG_PCIE_CONFIG\<close> are written by the interrupt handler and by
  hardware initialisation, but the header does not define them. The functions that use
  them take the offset as their first arguments.
\<close>

subsection \<open>DMA descriptor\<close>

record pcie_audio_dma_desc =
  address :: u64
  length_d :: u32
  flags :: u32
  next_d :: u64

text \<open>The struct is packed: 8 + 4 + 4 + 8 bytes.\<close>

definition sizeof_desc :: u64 where "sizeof_desc = 24"

definition DESC_FLAG_INT :: u32 where "DESC_FLAG_INT = push_bit 0 1"
definition DESC_FLAG_LAST :: u32 where "DESC_FLAG_LAST = push_bit 1 1"
definition DESC_FLAG_WRAP :: u32 where "DESC_FLAG_WRAP = push_bit 2 1"
definition DESC_FLAG_OWNED :: u32 where "DESC_FLAG_OWNED = push_bit 31 1"

subsection \<open>Streams, statistics, the chip\<close>

datatype direction = SNDRV_PCM_STREAM_PLAYBACK | SNDRV_PCM_STREAM_CAPTURE

text \<open>
  A \<open>struct snd_pcm_substream *\<close> is a handle of the sound core: a number stands for the
  address, \<open>None\<close> for \<open>NULL\<close>. The descriptor array behind \<open>desc\<close> is a list, \<open>None\<close>
  when the pointer is \<open>NULL\<close>.
\<close>

type_synonym substream_ptr = nat

record pcie_audio_stream =
  substream :: "substream_ptr option"
  desc :: "pcie_audio_dma_desc list option"
  desc_dma :: u64
  desc_count :: u32
  current_desc :: u32
  period_size :: u64
  buffer_size :: u64
  periods :: u32
  interrupts :: u64
  errors :: u64
  last_interrupt :: int
  latency :: u32
  hw_ptr :: u32
  prev_hw_ptr :: u32
  channels :: u32
  rate :: u32
  format :: int
  is_dsd :: bool

record pcie_audio_stats =
  pb_underruns :: u64
  cap_overruns :: u64
  clock_unlocks :: u64
  dma_errors :: u64
  start_time :: int

text \<open>
  What the driver does to its collaborators, in program order: register writes
  (\<open>writel\<close>), notifications to the sound core (tagged with the stream whose session
  is notified), releases of descriptor storage (\<open>dma_free_coherent\<close> of the ring of the
  given stream), releases of the sample buffer, sleeps and the warning of the clock wait.
\<close>

datatype event =
    RegWrite nat u32
  | StopXrun direction substream_ptr
  | PeriodElapsed direction substream_ptr
  | DmaFree direction u64
  | LibFreePages
  | Msleep nat
  | DevWarn

text \<open>
  The chip: the register window as a store from offsets to values, the two streams, the
  statistics, and the log of events. The fields \<open>pci\<close>, \<open>card\<close>, \<open>pcm\<close>, the saved
  registers and the three spinlocks play no part in the functions modelled here.
\<close>

record pcie_audio =
  regs :: "nat \<Rightarrow> u32"
  playback :: pcie_audio_stream
  capture :: pcie_audio_stream
  stats :: pcie_audio_stats
  events :: "event list"

section \<open>Register interface (pcie-audio-hw.c)\<close>

definition pcie_audio_read :: "pcie_audio \<Rightarrow> nat \<Rightarrow> u32" where
  "pcie_audio_read chip reg = regs chip reg"

definition pcie_audio_write :: "nat \<Rightarrow> u32 \<Rightarrow> pcie_audio \<Rightarrow> pcie_audio" where
  "pcie_audio_write reg val chip =
     chip\<lparr>regs := (regs chip)(reg := val), events := events chip @ [RegWrite reg val]\<rparr>"

section \<open>Calls into the sound core and the kernel\<close>

definition snd_pcm_stop_xrun :: "direction \<Rightarrow> substream_ptr \<Rightarrow> pcie_audio \<Rightarrow> pcie_audio" where
  "snd_pcm_stop_xrun dir ss chip = chip\<lparr>events := events chip @ [StopXrun dir ss]\<rparr>"

definition snd_pcm_period_elapsed :: "direction \<Rightarrow> substream_ptr \<Rightarrow> pcie_audio \<Rightarrow> pcie_audio" where
  "snd_pcm_period_elapsed dir ss chip = chip\<lparr>events := events chip @ [PeriodElapsed dir ss]\<rparr>"

definition msleep :: "nat \<Rightarrow> pcie_audio \<Rightarrow> pcie_audio" where
  "msleep ms chip = chip\<lparr>events := events chip @ [Msleep ms]\<rparr>"

definition dev_warn :: "pcie_audio \<Rightarrow> pcie_audio" where
  "dev_warn chip = chip\<lparr>events := events chip @ [DevWarn]\<rparr>"

text \<open>\<open>ktime_to_us\<close> divides nanoseconds by 1000, truncating as C does.\<close>

definition ktime_to_us :: "int \<Rightarrow> int" where
  "ktime_to_us kt = kt sdiv 1000"

section \<open>Interrupt handler (pcie-audio-irq.c)\<close>

datatype irqreturn = IRQ_NONE | IRQ_HANDLED

text \<open>The combined status word of lines 12-14.\<close>

definition irq_status :: "pcie_audio \<Rightarrow> u32" where
  "irq_status chip =
     pcie_audio_read chip REG_STATUS_PB_UNDERRUN
       OR push_bit 8 (pcie_audio_read chip REG_STATUS_CAP_OVERRUN)
       OR push_bit 16 (pcie_audio_read chip REG_STATUS_DMA_ERROR)"

text \<open>Lines 20-39: the playback block.\<close>

definition irq_playback :: "int \<Rightarrow> u32 \<Rightarrow> pcie_audio \<Rightarrow> pcie_audio" where
  "irq_playback now status chip =
     (if status AND 0xFF \<noteq> 0 then
        (case substream (playback chip) of
           None \<Rightarrow> chip
         | Some ss \<Rightarrow>
             let pb = playback chip;
                 pb1 = pb\<lparr>interrupts := interrupts pb + 1,
                          latency := word_of_int (ktime_to_us (now - last_interrupt pb)),
                          last_interrupt := now\<rparr>
             in if status AND push_bit 0 1 \<noteq> 0 then
                  snd_pcm_stop_xrun SNDRV_PCM_STREAM_PLAYBACK ss
                    (chip\<lparr>stats := (stats chip)\<lparr>pb_underruns := pb_underruns (stats chip) + 1\<rparr>,
                          playback := pb1\<lparr>errors := errors pb1 + 1\<rparr>\<rparr>)
                else snd_pcm_period_elapsed SNDRV_PCM_STREAM_PLAYBACK ss
                       (chip\<lparr>playback := pb1\<rparr>))
      else chip)"

text \<open>Lines 41-61: the capture block.\<close>

definition irq_capture :: "int \<Rightarrow> u32 \<Rightarrow> pcie_audio \<Rightarrow> pcie_audio" where
  "irq_capture now status chip =
     (if status AND 0xFF00 \<noteq> 0 then
        (case substream (capture chip) of
           None \<Rightarrow> chip
         | Some ss \<Rightarrow>
             let cp = capture chip;
                 cp1 = cp\<lparr>interrupts := interrupts cp + 1,
                          latency := word_of_int (ktime_to_us (now - last_interrupt cp)),
                          last_interrupt := now\<rparr>
             in if status AND push_bit 8 1 \<noteq> 0 then
                  snd_pcm_stop_xrun SNDRV_PCM_STREAM_CAPTURE ss
                    (chip\<lparr>stats := (stats chip)\<lparr>cap_overruns := cap_overruns (stats chip) + 1\<rparr>,
                          capture := cp1\<lparr>errors := errors cp1 + 1\<rparr>\<rparr>)
                else snd_pcm_period_elapsed SNDRV_PCM_STREAM_CAPTURE ss
                       (chip\<lparr>capture := cp1\<rparr>))
      else chip)"

text \<open>The value both the handler and hardware initialisation write to the DMA
  configuration register: burst size 512, scatter-gather, completion interrupt, master
  enable.\<close>

definition dma_config_val :: u32 where
  "dma_config_val = push_bit 16 512 OR push_bit 8 1 OR push_bit 1 1 OR push_bit 0 1"

text \<open>Lines 63-77: the DMA error block.\<close>

definition irq_dma_error :: "nat \<Rightarrow> u32 \<Rightarrow> pcie_audio \<Rightarrow> pcie_audio" where
  "irq_dma_error REG_DMA_CONFIG status chip =
     (if status AND 0xFF0000 \<noteq> 0 then
        pcie_audio_write REG_DMA_CONFIG dma_config_val
          (pcie_audio_write REG_CTRL_CAP_ENABLE 0
            (pcie_audio_write REG_CTRL_PB_ENABLE 0
              (chip\<lparr>stats := (stats chip)\<lparr>dma_errors := dma_errors (stats chip) + 1\<rparr>\<rparr>)))
      else chip)"

text \<open>Lines 79-82: the three status fields are cleared.\<close>

definition irq_clear_status :: "pcie_audio \<Rightarrow> pcie_audio" where
  "irq_clear_status chip =
     pcie_audio_write REG_STATUS_DMA_ERROR 0xFFFFFFFF
       (pcie_audio_write REG_STATUS_CAP_OVERRUN 0xFFFFFFFF
         (pcie_audio_write REG_STATUS_PB_UNDERRUN 0xFFFFFFFF chip))"

definition pcie_audio_interrupt ::
    "nat \<Rightarrow> int \<Rightarrow> pcie_audio \<Rightarrow> irqreturn \<times> pcie_audio" where
  "pcie_audio_interrupt REG_DMA_CONFIG now chip =
     (let status = irq_status chip in
      if status = 0 then (IRQ_NONE, chip)
      else (IRQ_HANDLED,
            irq_clear_status
              (irq_dma_error REG_DMA_CONFIG status
                (irq_capture now status
                  (irq_playback now status chip)))))"

section \<open>PCM operations (pcie-audio-pcm.c)\<close>

text \<open>
  The fields of \<open>substream->runtime\<close> that the driver reads, and the values the
  accessors \<open>params_*\<close> return for a \<open>struct snd_pcm_hw_params\<close>. Both structures belong
  to the sound core. \<open>params_physical_width\<close> is a C \<open>int\<close>, held here as its 32-bit
  pattern.
\<close>

record snd_pcm_runtime =
  rt_dma_addr :: u64
  rt_period_size :: u64
  rt_frame_bits :: u32
  rt_dma_bytes :: u64
  rt_periods :: u32

record snd_pcm_hw_params =
  params_buffer_bytes :: u32
  params_channels :: u32
  params_rate :: u32
  params_format :: int
  params_physical_width :: u32

text \<open>The sound core's helper: \<open>size * runtime->frame_bits / 8\<close> on signed longs.\<close>

definition frames_to_bytes :: "snd_pcm_runtime \<Rightarrow> u64 \<Rightarrow> u64" where
  "frames_to_bytes runtime sz =
     word_of_int (sint (sz * ucast (rt_frame_bits runtime)) sdiv 8)"

definition ENOMEM :: int where "ENOMEM = 12"
definition EINVAL :: int where "EINVAL = 22"

text \<open>A read through a \<open>NULL\<close> pointer ends the call with a fault of the kernel.\<close>

datatype fault = NULL_DEREF

text \<open>\<open>stream = &chip->playback\<close> or \<open>&chip->capture\<close>, by the substream's direction.\<close>

definition get_stream :: "direction \<Rightarrow> pcie_audio \<Rightarrow> pcie_audio_stream" where
  "get_stream dir chip =
     (if dir = SNDRV_PCM_STREAM_PLAYBACK then playback chip else capture chip)"

definition set_stream :: "direction \<Rightarrow> pcie_audio_stream \<Rightarrow> pcie_audio \<Rightarrow> pcie_audio" where
  "set_stream dir stream chip =
     (if dir = SNDRV_PCM_STREAM_PLAYBACK then chip\<lparr>playback := stream\<rparr>
      else chip\<lparr>capture := stream\<rparr>)"

definition dma_free_coherent :: "direction \<Rightarrow> u64 \<Rightarrow> pcie_audio \<Rightarrow> pcie_audio" where
  "dma_free_coherent dir handle chip = chip\<lparr>events := events chip @ [DmaFree dir handle]\<rparr>"

definition snd_pcm_lib_free_pages :: "pcie_audio \<Rightarrow> pcie_audio" where
  "snd_pcm_lib_free_pages chip = chip\<lparr>events := events chip @ [LibFreePages]\<rparr>"

subsection \<open>setup_dma_descriptors\<close>

text \<open>Lines 34-42: the body of the loop for index \<open>i\<close>.\<close>

definition init_desc :: "u64 \<Rightarrow> u64 \<Rightarrow> u64 \<Rightarrow> u32 \<Rightarrow> nat \<Rightarrow> pcie_audio_dma_desc" where
  "init_desc buf period_bytes dma count i =
     \<lparr>address = buf + of_nat i * period_bytes,
      length_d = ucast period_bytes,
      flags = (if i mod 2 = 1 then DESC_FLAG_INT else 0)
                OR (if (of_nat i :: u32) = count - 1 then DESC_FLAG_WRAP else 0),
      next_d = dma + of_nat ((i + 1) mod unat count) * sizeof_desc\<rparr>"

text \<open>
  Lines 33-43: the loop. The index is an \<open>unsigned int\<close> that stops at \<open>desc_count\<close>, so
  it never wraps and is a \<open>nat\<close> here.
\<close>

function init_descriptors ::
    "u64 \<Rightarrow> u64 \<Rightarrow> u64 \<Rightarrow> u32 \<Rightarrow> nat \<Rightarrow> pcie_audio_dma_desc list \<Rightarrow> pcie_audio_dma_desc list" where
  "init_descriptors buf period_bytes dma count i ds =
     (if i < unat count
      then init_descriptors buf period_bytes dma count (i + 1)
             (ds[i := init_desc buf period_bytes dma count i])
      else ds)"
  by pat_completeness auto
termination
  by (relation "measure (\<lambda>(buf, period_bytes, dma, count, i, ds). unat count - i)") auto

definition zero_desc :: pcie_audio_dma_desc where
  "zero_desc = \<lparr>address = 0, length_d = 0, flags = 0, next_d = 0\<rparr>"

text \<open>
  Lines 12-50: the function once line 10 has read the runtime. \<open>alloc\<close> is what
  \<open>dma_alloc_coherent\<close> gives: \<open>None\<close> for \<open>NULL\<close>, or the bus address of the fresh,
  zeroed storage (stored through \<open>&stream->desc_dma\<close>).
\<close>

definition setup_ring ::
    "u64 option \<Rightarrow> snd_pcm_runtime \<Rightarrow> direction \<Rightarrow> pcie_audio \<Rightarrow> int \<times> pcie_audio" where
  "setup_ring alloc runtime dir chip =
     (let stream = get_stream dir chip;
          buf = rt_dma_addr runtime;
          period_bytes = frames_to_bytes runtime (rt_period_size runtime);
          chip1 = (if desc stream \<noteq> None
                   then dma_free_coherent dir (desc_dma stream) chip else chip);
          stream1 = stream\<lparr>desc_count := DMA_DESC_COUNT\<rparr>
      in case alloc of
           None \<Rightarrow> (- ENOMEM, set_stream dir (stream1\<lparr>desc := None\<rparr>) chip1)
         | Some dma \<Rightarrow>
             let ds = init_descriptors buf period_bytes dma (desc_count stream1) 0
                        (replicate (unat (desc_count stream1)) zero_desc);
                 stream2 = stream1\<lparr>desc := Some ds, desc_dma := dma\<rparr>;
                 stream3 = stream2\<lparr>period_size := period_bytes,
                                   buffer_size := rt_dma_bytes runtime,
                                   periods := rt_periods runtime,
                                   current_desc := 0\<rparr>
             in (0, set_stream dir stream3 chip1))"

text \<open>
  Line 10 reads \<open>stream->substream->runtime\<close>. With no session bound to the stream,
  \<open>stream->substream\<close> is \<open>NULL\<close> and the read faults before anything else happens.
  \<open>runtime\<close> is the runtime of the bound substream.
\<close>

definition setup_dma_descriptors ::
    "u64 option \<Rightarrow> snd_pcm_runtime \<Rightarrow> direction \<Rightarrow> pcie_audio
       \<Rightarrow> fault + int \<times> pcie_audio" where
  "setup_dma_descriptors alloc runtime dir chip =
     (case substream (get_stream dir chip) of
        None \<Rightarrow> Inl NULL_DEREF
      | Some ss \<Rightarrow> Inr (setup_ring alloc runtime dir chip))"

subsection \<open>open and close\<close>

text \<open>
  \<open>now\<close> is what \<open>ktime_get()\<close> returns. The assignment to \<open>substream->runtime->hw\<close>
  changes the sound core's runtime, not the chip.
\<close>

definition pcie_audio_pcm_open ::
    "int \<Rightarrow> substream_ptr \<Rightarrow> direction \<Rightarrow> pcie_audio \<Rightarrow> int \<times> pcie_audio" where
  "pcie_audio_pcm_open now ss dir chip =
     (let stream = get_stream dir chip;
          stream1 = stream\<lparr>substream := Some ss\<rparr>;
          stream2 = stream1\<lparr>last_interrupt := now, interrupts := 0, errors := 0, latency := 0\<rparr>
      in (0, set_stream dir stream2 chip))"

definition pcie_audio_pcm_close :: "direction \<Rightarrow> pcie_audio \<Rightarrow> int \<times> pcie_audio" where
  "pcie_audio_pcm_close dir chip =
     (let stream = get_stream dir chip;
          chip1 = (if desc stream \<noteq> None
                   then set_stream dir (stream\<lparr>desc := None\<rparr>)
                          (dma_free_coherent dir (desc_dma stream) chip)
                   else chip);
          stream1 = get_stream dir chip1
      in (0, set_stream dir (stream1\<lparr>substream := None\<rparr>) chip1))"

subsection \<open>hw_params\<close>

text \<open>
  \<open>malloc_ret\<close> is what \<open>snd_pcm_lib_malloc_pages\<close> returns, \<open>runtime\<close> the runtime as the
  driver reads it after that call, \<open>alloc\<close> the outcome of \<open>dma_alloc_coherent\<close>.
\<close>

definition hw_params_dma_regs :: "direction \<Rightarrow> pcie_audio_stream \<Rightarrow> pcie_audio \<Rightarrow> pcie_audio" where
  "hw_params_dma_regs dir stream chip =
     (if dir = SNDRV_PCM_STREAM_PLAYBACK then
        pcie_audio_write REG_DMA_PB_THRESHOLD (ucast (period_size stream div 2))
          (pcie_audio_write REG_DMA_PB_SIZE (ucast (period_size stream))
            (pcie_audio_write REG_DMA_PB_DESC_COUNT (desc_count stream)
              (pcie_audio_write REG_DMA_PB_DESC_BASE (ucast (desc_dma stream)) chip)))
      else
        pcie_audio_write REG_DMA_CAP_THRESHOLD (ucast (period_size stream div 2))
          (pcie_audio_write REG_DMA_CAP_SIZE (ucast (period_size stream))
            (pcie_audio_write REG_DMA_CAP_DESC_COUNT (desc_count stream)
              (pcie_audio_write REG_DMA_CAP_DESC_BASE (ucast (desc_dma stream)) chip))))"

definition format_ctrl_val :: "u32 \<Rightarrow> u32 \<Rightarrow> u32" where
  "format_ctrl_val physical_width chans = (0 OR push_bit 8 physical_width) OR (chans - 1)"

definition rate_ctrl_val :: "u32 \<Rightarrow> u32" where
  "rate_ctrl_val r =
     (let rate_ctrl = (if r mod 44100 = 0 then 0 else push_bit 31 1);
          base_rate = (if rate_ctrl \<noteq> 0 then 48000 else 44100);
          multi = r div base_rate
      in rate_ctrl OR push_bit 8 (multi - 1))"

text \<open>Lines 114-152: what follows the return of \<open>setup_dma_descriptors\<close> with
  \<open>err\<close>.\<close>

definition hw_params_after_setup ::
    "int \<Rightarrow> direction \<Rightarrow> snd_pcm_hw_params \<Rightarrow> pcie_audio \<Rightarrow> int \<times> pcie_audio" where
  "hw_params_after_setup err dir params chip1 =
     (if err < 0 then (err, snd_pcm_lib_free_pages chip1)
      else
        let stream = (get_stream dir chip1)
               \<lparr>channels := params_channels params,
                rate := params_rate params,
                format := params_format params\<rparr>;
            chip2 = set_stream dir stream chip1;
            chip3 = hw_params_dma_regs dir stream chip2;
            chip4 = pcie_audio_write REG_CTRL_FORMAT
                      (format_ctrl_val (params_physical_width params) (channels stream))
                      chip3;
            chip5 = pcie_audio_write REG_CTRL_SAMPLE_FAMILY
                      (rate_ctrl_val (rate stream)) chip4
        in (0, pcie_audio_write REG_CTRL_TARGET_RATE (rate stream) chip5))"

definition pcie_audio_hw_params ::
    "int \<Rightarrow> u64 option \<Rightarrow> snd_pcm_runtime \<Rightarrow> direction \<Rightarrow> snd_pcm_hw_params \<Rightarrow> pcie_audio
       \<Rightarrow> fault + int \<times> pcie_audio" where
  "pcie_audio_hw_params malloc_ret alloc runtime dir params chip =
     (if malloc_ret < 0 then Inr (malloc_ret, chip)
      else
        (case setup_dma_descriptors alloc runtime dir chip of
           Inl f \<Rightarrow> Inl f
         | Inr (err, chip1) \<Rightarrow> Inr (hw_params_after_setup err dir params chip1)))"

text \<open>
  What \<open>pcie_audio_hw_params\<close> returns for a stream with a bound session, where line 10
  of \<open>setup_dma_descriptors\<close> reads the runtime.
\<close>

definition hw_params_bound ::
    "int \<Rightarrow> u64 option \<Rightarrow> snd_pcm_runtime \<Rightarrow> direction \<Rightarrow> snd_pcm_hw_params \<Rightarrow> pcie_audio
       \<Rightarrow> int \<times> pcie_audio" where
  "hw_params_bound malloc_ret alloc runtime dir params chip =
     (if malloc_ret < 0 then (malloc_ret, chip)
      else
        (case setup_ring alloc runtime dir chip of
           (err, chip1) \<Rightarrow> hw_params_after_setup err dir params chip1))"

subsection \<open>prepare and trigger\<close>

definition pcie_audio_prepare :: "direction \<Rightarrow> pcie_audio \<Rightarrow> int \<times> pcie_audio" where
  "pcie_audio_prepare dir chip =
     (let stream = (get_stream dir chip)\<lparr>current_desc := 0, hw_ptr := 0, prev_hw_ptr := 0\<rparr>;
          chip1 = set_stream dir stream chip
      in if dir = SNDRV_PCM_STREAM_PLAYBACK then
           (0, pcie_audio_write REG_STATUS_PB_UNDERRUN 0xFFFFFFFF
                 (pcie_audio_write REG_DMA_PB_IRQ_EN 0
                   (pcie_audio_write REG_CTRL_PB_ENABLE 0 chip1)))
         else
           (0, pcie_audio_write REG_STATUS_CAP_OVERRUN 0xFFFFFFFF
                 (pcie_audio_write REG_DMA_CAP_IRQ_EN 0
                   (pcie_audio_write REG_CTRL_CAP_ENABLE 0 chip1))))"

text \<open>The trigger commands of the sound core (\<open>sound/pcm.h\<close>).\<close>

definition SNDRV_PCM_TRIGGER_STOP :: int where "SNDRV_PCM_TRIGGER_STOP = 0"
definition SNDRV_PCM_TRIGGER_START :: int where "SNDRV_PCM_TRIGGER_START = 1"
definition SNDRV_PCM_TRIGGER_SUSPEND :: int where "SNDRV_PCM_TRIGGER_SUSPEND = 5"
definition SNDRV_PCM_TRIGGER_RESUME :: int where "SNDRV_PCM_TRIGGER_RESUME = 6"

definition pcie_audio_trigger :: "int \<Rightarrow> direction \<Rightarrow> int \<Rightarrow> pcie_audio \<Rightarrow> int \<times> pcie_audio" where
  "pcie_audio_trigger now dir cmd chip =
     (if cmd = SNDRV_PCM_TRIGGER_START \<or> cmd = SNDRV_PCM_TRIGGER_RESUME then
        (let chip1 =
               (if dir = SNDRV_PCM_STREAM_PLAYBACK then
                  pcie_audio_write REG_CTRL_PB_ENABLE 1
                    (pcie_audio_write REG_DMA_PB_IRQ_EN 1 chip)
                else
                  pcie_audio_write REG_CTRL_CAP_ENABLE 1
                    (pcie_audio_write REG_DMA_CAP_IRQ_EN 1 chip))
         in (0, set_stream dir ((get_stream dir chip1)\<lparr>last_interrupt := now\<rparr>) chip1))
      else if cmd = SNDRV_PCM_TRIGGER_STOP \<or> cmd = SNDRV_PCM_TRIGGER_SUSPEND then
        (if dir = SNDRV_PCM_STREAM_PLAYBACK then
           (0, pcie_audio_write REG_DMA_PB_IRQ_EN 0
                 (pcie_audio_write REG_CTRL_PB_ENABLE 0 chip))
         else
           (0, pcie_audio_write REG_DMA_CAP_IRQ_EN 0
                 (pcie_audio_write REG_CTRL_CAP_ENABLE 0 chip)))
      else (- EINVAL, chip))"

section \<open>Format control (pcie-audio-control.c)\<close>

definition format_get :: "pcie_audio \<Rightarrow> u32" where
  "format_get chip = drop_bit 31 (pcie_audio_read chip REG_CTRL_FORMAT) AND 1"

definition format_put :: "u32 \<Rightarrow> pcie_audio \<Rightarrow> int \<times> pcie_audio" where
  "format_put item chip =
     (let val = pcie_audio_read chip REG_CTRL_FORMAT;
          val1 = val AND NOT (push_bit 31 1);
          val2 = val1 OR push_bit 31 (item AND 1)
      in (1, pcie_audio_write REG_CTRL_FORMAT val2 chip))"

section \<open>Hardware initialisation (pcie-audio-hw.c)\<close>

text \<open>
  Lines 63-68: the wait for the clock lock. The list holds the values the hardware
  returns for \<open>REG_STATUS_LOCKED\<close>, one for each round of the loop that starts before the
  deadline; the loop sleeps a millisecond per round, so the list is finite. The result
  is \<open>True\<close> when the loop leaves through \<open>goto clock_locked\<close>.
\<close>

fun wait_clock_lock :: "u32 list \<Rightarrow> pcie_audio \<Rightarrow> bool \<times> pcie_audio" where
  "wait_clock_lock [] chip = (False, chip)"
| "wait_clock_lock (v # vs) chip =
     (if v \<noteq> 0 then (True, chip) else wait_clock_lock vs (msleep 1 chip))"

text \<open>Lines 32-60: everything before the wait.\<close>

definition init_hw_prefix :: "nat \<Rightarrow> pcie_audio \<Rightarrow> pcie_audio" where
  "init_hw_prefix REG_DMA_CONFIG chip =
     (let chip1 = msleep 1 (pcie_audio_write REG_CTRL_RESET 1 chip);
          chip2 = msleep 1 (pcie_audio_write REG_CTRL_RESET 0 chip1);
          chip3 = pcie_audio_write REG_DMA_CONFIG
                    (0 OR push_bit 16 512 OR push_bit 8 1 OR push_bit 1 1 OR push_bit 0 1) chip2;
          chip4 = pcie_audio_write REG_DMA_PB_THRESHOLD 1024 chip3;
          chip5 = pcie_audio_write REG_DMA_CAP_THRESHOLD 1024 chip4;
          chip6 = pcie_audio_write REG_CTRL_FORMAT (0 OR push_bit 8 24 OR (8 - 1)) chip5
      in pcie_audio_write REG_CTRL_SYNC_TIMEOUT (0 OR push_bit 16 48000 OR push_bit 0 1) chip6)"

text \<open>Lines 73-87: the part after the label \<open>clock_locked\<close>.\<close>

definition init_hw_locked :: "nat \<Rightarrow> u32 \<Rightarrow> pcie_audio \<Rightarrow> pcie_audio" where
  "init_hw_locked REG_PCIE_CONFIG current_state chip =
     (let chip1 = pcie_audio_write REG_PCIE_CONFIG
                    (0 OR push_bit 24 current_state OR push_bit 16 512 OR push_bit 8 1
                       OR push_bit 0 1) chip;
          chip2 = pcie_audio_write REG_STATUS_PB_UNDERRUN 0xFFFFFFFF chip1;
          chip3 = pcie_audio_write REG_STATUS_CAP_OVERRUN 0xFFFFFFFF chip2
      in pcie_audio_write REG_STATUS_DMA_ERROR 0xFFFFFFFF chip3)"

definition pcie_audio_init_hw ::
    "nat \<Rightarrow> nat \<Rightarrow> u32 \<Rightarrow> u32 list \<Rightarrow> pcie_audio \<Rightarrow> int \<times> pcie_audio" where
  "pcie_audio_init_hw REG_DMA_CONFIG REG_PCIE_CONFIG current_state polls chip =
     (case wait_clock_lock polls (init_hw_prefix REG_DMA_CONFIG chip) of
        (False, chip1) \<Rightarrow> (0, dev_warn chip1)
      | (True, chip1) \<Rightarrow> (0, init_hw_locked REG_PCIE_CONFIG current_state chip1))"

section \<open>Observations on the event log\<close>

text \<open>The events a call appended to the log.\<close>

definition new_events :: "pcie_audio \<Rightarrow> pcie_audio \<Rightarrow> event list" where
  "new_events chip chip' = drop (length (events chip)) (events chip')"

text \<open>The notifications sent to the session of one stream, and the register writes.\<close>

fun is_notification :: "direction \<Rightarrow> event \<Rightarrow> bool" where
  "is_notification dir (StopXrun d ss) = (d = dir)"
| "is_notification dir (PeriodElapsed d ss) = (d = dir)"
| "is_notification dir e = False"

definition notifications :: "direction \<Rightarrow> event list \<Rightarrow> event list" where
  "notifications dir es = filter (is_notification dir) es"

fun is_reg_write :: "event \<Rightarrow> bool" where
  "is_reg_write (RegWrite r v) = True"
| "is_reg_write e = False"

definition reg_writes :: "event list \<Rightarrow> event list" where
  "reg_writes es = filter is_reg_write es"

text \<open>Per direction: the x-run bit of the combined status word, and the x-run
  statistic.\<close>

definition xrun_bit :: "direction \<Rightarrow> u32" where
  "xrun_bit dir = (if dir = SNDRV_PCM_STREAM_PLAYBACK then push_bit 0 1 else push_bit 8 1)"

definition xrun_stat :: "direction \<Rightarrow> pcie_audio_stats \<Rightarrow> u64" where
  "xrun_stat dir st =
     (if dir = SNDRV_PCM_STREAM_PLAYBACK then pb_underruns st else cap_overruns st)"

text \<open>A chip as \<open>snd_card_new\<close> hands it out: all fields zero, nothing logged.\<close>

definition zero_stream :: pcie_audio_stream where
  "zero_stream =
     \<lparr>substream = None, desc = None, desc_dma = 0, desc_count = 0, current_desc = 0,
      period_size = 0, buffer_size = 0, periods = 0, interrupts = 0, errors = 0,
      last_interrupt = 0, latency = 0, hw_ptr = 0, prev_hw_ptr = 0, channels = 0,
      rate = 0, format = 0, is_dsd = False\<rparr>"

definition zero_chip :: pcie_audio where
  "zero_chip =
     \<lparr>regs = (\<lambda>r. 0), playback = zero_stream, capture = zero_stream,
      stats = \<lparr>pb_underruns = 0, cap_overruns = 0, clock_unlocks = 0, dma_errors = 0,
               start_time = 0\<rparr>,
      events = []\<rparr>"

section \<open>The descriptor ring as the hardware walks it\<close>

text \<open>
  The hardware follows \<open>next\<close>, a bus address. Slot \<open>i\<close> of a ring at bus address \<open>dma\<close>
  lies at \<open>dma + i * sizeof_desc\<close>, so an address is turned back into a slot number by
  subtracting the base and dividing by the size of a descriptor.
\<close>

definition desc_index :: "u64 \<Rightarrow> u64 \<Rightarrow> nat" where
  "desc_index dma a = unat ((a - dma) div sizeof_desc)"

text \<open>The slot after slot \<open>i\<close>; outside the ring there is none, shown as \<open>length ds\<close>.\<close>

definition next_index :: "pcie_audio_dma_desc list \<Rightarrow> u64 \<Rightarrow> nat \<Rightarrow> nat" where
  "next_index ds dma i =
     (if i < length ds then desc_index dma (next_d (ds ! i)) else length ds)"

text \<open>The slots visited in \<open>n\<close> steps from slot \<open>i\<close>.\<close>

fun ring_walk :: "pcie_audio_dma_desc list \<Rightarrow> u64 \<Rightarrow> nat \<Rightarrow> nat \<Rightarrow> nat list" where
  "ring_walk ds dma 0 i = []"
| "ring_walk ds dma (Suc n) i = i # ring_walk ds dma n (next_index ds dma i)"

definition has_wrap :: "pcie_audio_dma_desc \<Rightarrow> bool" where
  "has_wrap d = (flags d AND DESC_FLAG_WRAP \<noteq> 0)"

definition wrap_indices :: "pcie_audio_dma_desc list \<Rightarrow> nat list" where
  "wrap_indices ds = filter (\<lambda>i. has_wrap (ds ! i)) [0..<length ds]"

definition ring_of :: "direction \<Rightarrow> pcie_audio \<Rightarrow> pcie_audio_dma_desc list" where
  "ring_of dir chip = (case desc (get_stream dir chip) of None \<Rightarrow> [] | Some ds \<Rightarrow> ds)"

text \<open>A runtime with 8 periods of 1024 frames of two 16-bit channels: 4096 bytes a
  period, 32768 bytes in all.\<close>

definition runtime_8x4096 :: snd_pcm_runtime where
  "runtime_8x4096 =
     \<lparr>rt_dma_addr = 0x10000000, rt_period_size = 1024, rt_frame_bits = 32,
      rt_dma_bytes = 32768, rt_periods = 8\<rparr>"

section \<open>Sequences of calls\<close>

text \<open>
  The entries of \<open>pcie_audio_pcm_ops\<close> and the interrupt, with the values their
  surroundings supply. The driver keeps no record of the state of a stream, so any
  sequence can be run.
\<close>

datatype pcm_op =
    OpOpen int substream_ptr direction
  | OpClose direction
  | OpHwParams int "u64 option" snd_pcm_runtime direction snd_pcm_hw_params
  | OpPrepare direction
  | OpTrigger int direction int
  | OpInterrupt nat int

fun pcm_step :: "pcm_op \<Rightarrow> pcie_audio \<Rightarrow> fault + pcie_audio" where
  "pcm_step (OpOpen now ss dir) chip = Inr (snd (pcie_audio_pcm_open now ss dir chip))"
| "pcm_step (OpClose dir) chip = Inr (snd (pcie_audio_pcm_close dir chip))"
| "pcm_step (OpHwParams malloc_ret alloc runtime dir params) chip =
     (case pcie_audio_hw_params malloc_ret alloc runtime dir params chip of
        Inl f \<Rightarrow> Inl f
      | Inr r \<Rightarrow> Inr (snd r))"
| "pcm_step (OpPrepare dir) chip = Inr (snd (pcie_audio_prepare dir chip))"
| "pcm_step (OpTrigger now dir cmd) chip = Inr (snd (pcie_audio_trigger now dir cmd chip))"
| "pcm_step (OpInterrupt REG_DMA_CONFIG now) chip =
     Inr (snd (pcie_audio_interrupt REG_DMA_CONFIG now chip))"

text \<open>A fault ends the run; the chip is then as the faulting call found it.\<close>

fun pcm_run :: "pcm_op list \<Rightarrow> pcie_audio \<Rightarrow> pcie_audio" where
  "pcm_run [] chip = chip"
| "pcm_run (x # xs) chip =
     (case pcm_step x chip of Inl f \<Rightarrow> chip | Inr chip' \<Rightarrow> pcm_run xs chip')"

definition enable_reg :: "direction \<Rightarrow> nat" where
  "enable_reg dir =
     (if dir = SNDRV_PCM_STREAM_PLAYBACK then REG_CTRL_PB_ENABLE else REG_CTRL_CAP_ENABLE)"

text \<open>
  Reading a log from a given value of the enable register of \<open>dir\<close>: the value after the
  log, and whether some release of the ring of \<open>dir\<close> happens while the register is not
  zero.
\<close>

fun enable_after :: "direction \<Rightarrow> u32 \<Rightarrow> event list \<Rightarrow> u32" where
  "enable_after dir en [] = en"
| "enable_after dir en (RegWrite r v # es) =
     enable_after dir (if r = enable_reg dir then v else en) es"
| "enable_after dir en (e # es) = enable_after dir en es"

fun freed_while_enabled :: "direction \<Rightarrow> u32 \<Rightarrow> event list \<Rightarrow> bool" where
  "freed_while_enabled dir en [] = False"
| "freed_while_enabled dir en (RegWrite r v # es) =
     freed_while_enabled dir (if r = enable_reg dir then v else en) es"
| "freed_while_enabled dir en (DmaFree d h # es) =
     (if d = dir \<and> en \<noteq> 0 then True else freed_while_enabled dir en es)"
| "freed_while_enabled dir en (e # es) = freed_while_enabled dir en es"

text \<open>
  The order of calls the sound core keeps for one direction: close and hw_params come
  only while the stream is not started, that is, when no start or resume has come since
  the last stop, suspend or prepare. \<open>op_frees\<close> marks the calls that may release the
  ring of \<open>dir\<close>; \<open>op_running\<close> follows whether the stream is started; \<open>op_apart\<close> says
  that the offset given for \<open>REG_DMA_CONFIG\<close> is not that of the enable register.
  \<open>running\<close> says whether the stream is started at the beginning of the sequence.
\<close>

fun op_frees :: "direction \<Rightarrow> pcm_op \<Rightarrow> bool" where
  "op_frees dir (OpClose d) = (d = dir)"
| "op_frees dir (OpHwParams malloc_ret alloc runtime d params) = (d = dir)"
| "op_frees dir x = False"

fun op_running :: "direction \<Rightarrow> bool \<Rightarrow> pcm_op \<Rightarrow> bool" where
  "op_running dir running (OpTrigger now d cmd) =
     (if d = dir then
        (if cmd = SNDRV_PCM_TRIGGER_START \<or> cmd = SNDRV_PCM_TRIGGER_RESUME then True
         else if cmd = SNDRV_PCM_TRIGGER_STOP \<or> cmd = SNDRV_PCM_TRIGGER_SUSPEND then False
         else running)
      else running)"
| "op_running dir running (OpPrepare d) = (if d = dir then False else running)"
| "op_running dir running x = running"

fun op_apart :: "direction \<Rightarrow> pcm_op \<Rightarrow> bool" where
  "op_apart dir (OpInterrupt REG_DMA_CONFIG now) = (REG_DMA_CONFIG \<noteq> enable_reg dir)"
| "op_apart dir x = True"

function frees_stopped :: "direction \<Rightarrow> bool \<Rightarrow> pcm_op list \<Rightarrow> bool" where
  "frees_stopped dir running [] = True"
| "frees_stopped dir running (x # xs) =
     (if op_frees dir x \<and> running then False
      else op_apart dir x \<and> frees_stopped dir (op_running dir running x) xs)"
  by pat_completeness auto
termination
  by (relation "measure (\<lambda>(dir, running, xs). length xs)") simp_all

text \<open>One call: the log grows, and reading the new part from the enable register before
  the call gives the enable register after it.\<close>

definition logged :: "direction \<Rightarrow> pcie_audio \<Rightarrow> pcie_audio \<Rightarrow> bool" where
  "logged dir chip chip' \<longleftrightarrow>
     events chip' = events chip @ new_events chip chip' \<and>
     enable_after dir (regs chip (enable_reg dir)) (new_events chip chip')
       = regs chip' (enable_reg dir)"

text \<open>
  Chips for concrete runs: the three status registers hold \<open>u\<close>, \<open>ov\<close> and \<open>d\<close>, and
  the playback stream is bound to \<open>ss\<close>. \<open>0x400\<close> stands for the offset of
  \<open>REG_DMA_CONFIG\<close> there, \<open>0x404\<close> for that of \<open>REG_PCIE_CONFIG\<close>.
\<close>

definition status_chip :: "u32 \<Rightarrow> u32 \<Rightarrow> u32 \<Rightarrow> substream_ptr option \<Rightarrow> pcie_audio" where
  "status_chip u ov d ss =
     zero_chip\<lparr>regs := (\<lambda>r. if r = REG_STATUS_PB_UNDERRUN then u
                          else if r = REG_STATUS_CAP_OVERRUN then ov
                          else if r = REG_STATUS_DMA_ERROR then d else 0),
               playback := zero_stream\<lparr>substream := ss\<rparr>\<rparr>"

text \<open>
  The register writes of a successful \<open>pcie_audio_hw_params\<close>, for the ring address
  \<open>dma\<close>: lines 126-150 read in order.
\<close>

definition hw_params_writes ::
    "u64 \<Rightarrow> snd_pcm_runtime \<Rightarrow> direction \<Rightarrow> snd_pcm_hw_params \<Rightarrow> event list" where
  "hw_params_writes dma runtime dir params =
     (let pb = frames_to_bytes runtime (rt_period_size runtime) in
      (if dir = SNDRV_PCM_STREAM_PLAYBACK then
         [RegWrite REG_DMA_PB_DESC_BASE (ucast dma),
          RegWrite REG_DMA_PB_DESC_COUNT DMA_DESC_COUNT,
          RegWrite REG_DMA_PB_SIZE (ucast pb),
          RegWrite REG_DMA_PB_THRESHOLD (ucast (pb div 2))]
       else
         [RegWrite REG_DMA_CAP_DESC_BASE (ucast dma),
          RegWrite REG_DMA_CAP_DESC_COUNT DMA_DESC_COUNT,
          RegWrite REG_DMA_CAP_SIZE (ucast pb),
          RegWrite REG_DMA_CAP_THRESHOLD (ucast (pb div 2))])
      @ [RegWrite REG_CTRL_FORMAT
           (format_ctrl_val (params_physical_width params) (params_channels params)),
         RegWrite REG_CTRL_SAMPLE_FAMILY (rate_ctrl_val (params_rate params)),
         RegWrite REG_CTRL_TARGET_RATE (params_rate params)])"

text \<open>
  Parameter sets for concrete runs. The sound core gives the format \<open>S16_LE\<close> the number
  2 and the physical width 16, \<open>S24_LE\<close> (24-bit samples in 32-bit words) the number 6
  and the physical width 32, and \<open>S24_3LE\<close> (24-bit samples packed in three bytes) the
  number 32 and the physical width 24.
\<close>

definition params_9ch :: snd_pcm_hw_params where
  "params_9ch =
     \<lparr>params_buffer_bytes = 32768, params_channels = 9, params_rate = 48000,
      params_format = 2, params_physical_width = 16\<rparr>"

definition params_0ch :: snd_pcm_hw_params where
  "params_0ch =
     \<lparr>params_buffer_bytes = 32768, params_channels = 0, params_rate = 48000,
      params_format = 2, params_physical_width = 16\<rparr>"


definition params_96k_24bit_stereo :: snd_pcm_hw_params where
  "params_96k_24bit_stereo =
     \<lparr>params_buffer_bytes = 32768, params_channels = 2, params_rate = 96000,
      params_format = 32, params_physical_width = 24\<rparr>"

text \<open>
  For hardware initialisation: whether the wait sees the clock lock, the register
  writes before the wait (lines 33-60), the three status clearing writes, and the value
  written to the PCIe configuration register.
\<close>

definition clock_locks :: "u32 list \<Rightarrow> bool" where
  "clock_locks polls = list_ex (\<lambda>v. v \<noteq> 0) polls"

definition init_hw_writes :: "nat \<Rightarrow> event list" where
  "init_hw_writes REG_DMA_CONFIG =
     [RegWrite REG_CTRL_RESET 1, RegWrite REG_CTRL_RESET 0,
      RegWrite REG_DMA_CONFIG dma_config_val,
      RegWrite REG_DMA_PB_THRESHOLD 1024, RegWrite REG_DMA_CAP_THRESHOLD 1024,
      RegWrite REG_CTRL_FORMAT (push_bit 8 24 OR (8 - 1)),
      RegWrite REG_CTRL_SYNC_TIMEOUT (push_bit 16 48000 OR 1)]"

definition status_clear_writes :: "event list" where
  "status_clear_writes =
     [RegWrite REG_STATUS_PB_UNDERRUN 0xFFFFFFFF,
      RegWrite REG_STATUS_CAP_OVERRUN 0xFFFFFFFF,
      RegWrite REG_STATUS_DMA_ERROR 0xFFFFFFFF]"

definition pcie_config_val :: "u32 \<Rightarrow> u32" where
  "pcie_config_val current_state =
     push_bit 24 current_state OR push_bit 16 512 OR push_bit 8 1 OR push_bit 0 1"

text \<open>
  Two sequences of calls on playback: one closes the stream right after starting it, the
  other stops it first (with a prepare and an interrupt on the way).
\<close>

definition ops_start_close :: "pcm_op list" where
  "ops_start_close =
     [OpOpen 0 1 SNDRV_PCM_STREAM_PLAYBACK,
      OpHwParams 0 (Some 0x20000000) runtime_8x4096 SNDRV_PCM_STREAM_PLAYBACK
        params_96k_24bit_stereo,
      OpTrigger 1000 SNDRV_PCM_STREAM_PLAYBACK SNDRV_PCM_TRIGGER_START,
      OpClose SNDRV_PCM_STREAM_PLAYBACK]"

definition ops_start_stop_close :: "pcm_op list" where
  "ops_start_stop_close =
     [OpOpen 0 1 SNDRV_PCM_STREAM_PLAYBACK,
      OpHwParams 0 (Some 0x20000000) runtime_8x4096 SNDRV_PCM_STREAM_PLAYBACK
        params_96k_24bit_stereo,
      OpPrepare SNDRV_PCM_STREAM_PLAYBACK,
      OpTrigger 1000 SNDRV_PCM_STREAM_PLAYBACK SNDRV_PCM_TRIGGER_START,
      OpInterrupt 0x400 5000,
      OpTrigger 9000 SNDRV_PCM_STREAM_PLAYBACK SNDRV_PCM_TRIGGER_STOP,
      OpClose SNDRV_PCM_STREAM_PLAYBACK]"

section \<open>Basic facts\<close>

lemmas reg_defs =
  REG_CTRL_FORMAT_def REG_CTRL_SAMPLE_FAMILY_def REG_CTRL_PB_ENABLE_def
  REG_CTRL_CAP_ENABLE_def REG_CTRL_RESET_def REG_CTRL_TARGET_RATE_def
  REG_CTRL_SYNC_TIMEOUT_def
  REG_DMA_PB_DESC_BASE_def REG_DMA_PB_DESC_COUNT_def REG_DMA_PB_SIZE_def
  REG_DMA_PB_IRQ_EN_def REG_DMA_PB_THRESHOLD_def
  REG_DMA_CAP_DESC_BASE_def REG_DMA_CAP_DESC_COUNT_def REG_DMA_CAP_SIZE_def
  REG_DMA_CAP_IRQ_EN_def REG_DMA_CAP_THRESHOLD_def
  REG_STATUS_LOCKED_def REG_STATUS_PB_UNDERRUN_def REG_STATUS_CAP_OVERRUN_def
  REG_STATUS_DMA_ERROR_def

lemma low_bit_byte: "(w :: u32) AND 1 \<noteq> 0 \<Longrightarrow> w AND 0xFF \<noteq> 0"
proof
  assume a: "w AND 1 \<noteq> 0" and b: "w AND 0xFF = 0"
  have "w AND 1 = (w AND 0xFF) AND 1"
    by (simp add: and.assoc)
  with a b show False by simp
qed

lemma bit8_byte: "(w :: u32) AND 256 \<noteq> 0 \<Longrightarrow> w AND 0xFF00 \<noteq> 0"
proof
  assume a: "w AND 256 \<noteq> 0" and b: "w AND 0xFF00 = 0"
  have "w AND 256 = (w AND 0xFF00) AND 256"
    by (simp add: and.assoc)
  with a b show False by simp
qed

lemmas irq_defs =
  pcie_audio_interrupt_def irq_playback_def irq_capture_def irq_dma_error_def
  irq_clear_status_def snd_pcm_stop_xrun_def snd_pcm_period_elapsed_def
  pcie_audio_write_def new_events_def notifications_def reg_writes_def Let_def

lemmas fixture_defs =
  status_chip_def zero_chip_def zero_stream_def irq_status_def pcie_audio_read_def
  get_stream_def xrun_bit_def xrun_stat_def reg_defs

section \<open>The interrupt handler\<close>

text \<open>
  The bits of the combined status word at the registers: bit 0 is bit 0 of the underrun
  register, bit 8 is set when bit 0 of the overrun register is, and the bits 16 to 23
  hold the low byte of the DMA error register. The handler does not mask the underrun
  register, so its higher bits reach the same places.
\<close>

lemma shifted_low: "push_bit 8 (x :: u32) AND 1 = 0" "push_bit 16 (x :: u32) AND 1 = 0"
  by (rule bit_word_eqI, simp add: bit_simps)+

lemma irq_status_underrun:
  "pcie_audio_read chip REG_STATUS_PB_UNDERRUN AND 1 \<noteq> 0 \<Longrightarrow>
   irq_status chip AND xrun_bit SNDRV_PCM_STREAM_PLAYBACK \<noteq> 0"
  by (simp add: irq_status_def xrun_bit_def bit.conj_disj_distrib2 shifted_low)

lemma irq_status_overrun:
  assumes "pcie_audio_read chip REG_STATUS_CAP_OVERRUN AND 1 \<noteq> 0"
  shows "irq_status chip AND xrun_bit SNDRV_PCM_STREAM_CAPTURE \<noteq> 0"
proof -
  from assms have "bit (pcie_audio_read chip REG_STATUS_CAP_OVERRUN) 0"
    by (simp add: and_one_eq mod_2_eq_odd bit_0)
  then have "bit (irq_status chip AND 256) 8"
    by (simp add: irq_status_def bit_simps)
  then have "irq_status chip AND 256 \<noteq> 0" by auto
  then show ?thesis by (simp add: xrun_bit_def)
qed

lemma irq_status_dma_error:
  assumes "bit (pcie_audio_read chip REG_STATUS_DMA_ERROR) n" and "n < 8"
  shows "irq_status chip AND 0xFF0000 \<noteq> 0"
proof -
  have m: "(0xFF0000 :: u32) = push_bit 16 (mask 8)" by (simp add: mask_eq_exp_minus_1)
  from assms have "bit (irq_status chip AND push_bit 16 (mask 8)) (16 + n)"
    by (simp add: irq_status_def bit_simps)
  then have "irq_status chip AND push_bit 16 (mask 8) \<noteq> 0" by auto
  then show ?thesis unfolding m .
qed

text \<open>
  C6. When the x-run bit of a direction (bit 0 of the combined status word for playback
  underrun, bit 8 for capture overrun) is set and that direction has a bound session,
  the handler returns \<open>IRQ_HANDLED\<close>, the only notification it sends to that session is
  one x-run (so no period-elapsed notification), the x-run statistic of the direction
  grows by one, and so does the error counter of the stream.
\<close>

theorem irq_xrun_bound:
  assumes "irq_status chip AND xrun_bit dir \<noteq> 0"
      and "substream (get_stream dir chip) = Some ss"
  shows "fst (pcie_audio_interrupt rdc now chip) = IRQ_HANDLED \<and>
         notifications dir (new_events chip (snd (pcie_audio_interrupt rdc now chip)))
           = [StopXrun dir ss] \<and>
         xrun_stat dir (stats (snd (pcie_audio_interrupt rdc now chip)))
           = xrun_stat dir (stats chip) + 1 \<and>
         errors (get_stream dir (snd (pcie_audio_interrupt rdc now chip)))
           = errors (get_stream dir chip) + 1"
proof (cases dir)
  case SNDRV_PCM_STREAM_PLAYBACK
  with assms have b: "irq_status chip AND 1 \<noteq> 0" and s: "substream (playback chip) = Some ss"
    by (simp_all add: xrun_bit_def get_stream_def)
  from b have nz: "irq_status chip \<noteq> 0" by auto
  from b have byte: "irq_status chip AND 0xFF \<noteq> 0" by (rule low_bit_byte)
  show ?thesis
    using SNDRV_PCM_STREAM_PLAYBACK b s nz byte
    by (auto simp: irq_defs xrun_stat_def get_stream_def split: option.splits)
next
  case SNDRV_PCM_STREAM_CAPTURE
  with assms have b: "irq_status chip AND 256 \<noteq> 0" and s: "substream (capture chip) = Some ss"
    by (simp_all add: xrun_bit_def get_stream_def)
  from b have nz: "irq_status chip \<noteq> 0" by auto
  from b have byte: "irq_status chip AND 0xFF00 \<noteq> 0" by (rule bit8_byte)
  show ?thesis
    using SNDRV_PCM_STREAM_CAPTURE b s nz byte
    by (auto simp: irq_defs xrun_stat_def get_stream_def split: option.splits)
qed

theorem irq_xrun_bound_witness:
  "irq_status (status_chip 1 0 0 (Some 7)) AND xrun_bit SNDRV_PCM_STREAM_PLAYBACK \<noteq> 0 \<and>
   substream (get_stream SNDRV_PCM_STREAM_PLAYBACK (status_chip 1 0 0 (Some 7))) = Some 7 \<and>
   fst (pcie_audio_interrupt 0x400 5000 (status_chip 1 0 0 (Some 7))) = IRQ_HANDLED \<and>
   notifications SNDRV_PCM_STREAM_PLAYBACK
     (new_events (status_chip 1 0 0 (Some 7))
        (snd (pcie_audio_interrupt 0x400 5000 (status_chip 1 0 0 (Some 7)))))
     = [StopXrun SNDRV_PCM_STREAM_PLAYBACK 7] \<and>
   pb_underruns (stats (snd (pcie_audio_interrupt 0x400 5000 (status_chip 1 0 0 (Some 7))))) = 1 \<and>
   errors (playback (snd (pcie_audio_interrupt 0x400 5000 (status_chip 1 0 0 (Some 7))))) = 1"
proof -
  have h1: "irq_status (status_chip 1 0 0 (Some 7)) AND xrun_bit SNDRV_PCM_STREAM_PLAYBACK \<noteq> 0"
    by (simp add: fixture_defs)
  have h2: "substream (get_stream SNDRV_PCM_STREAM_PLAYBACK (status_chip 1 0 0 (Some 7))) = Some 7"
    by (simp add: fixture_defs)
  have z: "pb_underruns (stats (status_chip 1 0 0 (Some 7))) = 0"
          "errors (playback (status_chip 1 0 0 (Some 7))) = 0"
    by (simp_all add: fixture_defs)
  from irq_xrun_bound [OF h1 h2, of "0x400" 5000] h1 h2 z show ?thesis
    by (simp add: xrun_stat_def get_stream_def)
qed




text \<open>
  C7. When a DMA-error bit of the combined status word (bits 16 to 23) is set, the
  handler counts one DMA error, and its register writes are, in this order: 0 to the
  playback enable register, 0 to the capture enable register, the baseline value to the
  DMA configuration register, and all-ones to the three status registers. Afterwards
  both enable registers hold 0 and the DMA configuration register holds the baseline
  value \<open>0x02000103\<close>, whatever they held before and whichever sessions are bound. The
  header gives no offset for \<open>REG_DMA_CONFIG\<close>; it is taken to be a register of its own,
  apart from the two enable registers and the three status registers.
\<close>

theorem irq_dma_error_resets:
  assumes "irq_status chip AND 0xFF0000 \<noteq> 0"
      and "rdc \<notin> {REG_CTRL_PB_ENABLE, REG_CTRL_CAP_ENABLE, REG_STATUS_PB_UNDERRUN,
                   REG_STATUS_CAP_OVERRUN, REG_STATUS_DMA_ERROR}"
  shows "fst (pcie_audio_interrupt rdc now chip) = IRQ_HANDLED \<and>
         dma_errors (stats (snd (pcie_audio_interrupt rdc now chip)))
           = dma_errors (stats chip) + 1 \<and>
         reg_writes (new_events chip (snd (pcie_audio_interrupt rdc now chip)))
           = [RegWrite REG_CTRL_PB_ENABLE 0, RegWrite REG_CTRL_CAP_ENABLE 0,
              RegWrite rdc dma_config_val,
              RegWrite REG_STATUS_PB_UNDERRUN 0xFFFFFFFF,
              RegWrite REG_STATUS_CAP_OVERRUN 0xFFFFFFFF,
              RegWrite REG_STATUS_DMA_ERROR 0xFFFFFFFF] \<and>
         pcie_audio_read (snd (pcie_audio_interrupt rdc now chip)) REG_CTRL_PB_ENABLE = 0 \<and>
         pcie_audio_read (snd (pcie_audio_interrupt rdc now chip)) REG_CTRL_CAP_ENABLE = 0 \<and>
         pcie_audio_read (snd (pcie_audio_interrupt rdc now chip)) rdc = dma_config_val \<and>
         dma_config_val = 0x02000103"
proof -
  from assms(1) have nz: "irq_status chip \<noteq> 0" by auto
  have log:
    "fst (pcie_audio_interrupt rdc now chip) = IRQ_HANDLED \<and>
     dma_errors (stats (snd (pcie_audio_interrupt rdc now chip)))
       = dma_errors (stats chip) + 1 \<and>
     reg_writes (new_events chip (snd (pcie_audio_interrupt rdc now chip)))
       = [RegWrite REG_CTRL_PB_ENABLE 0, RegWrite REG_CTRL_CAP_ENABLE 0,
          RegWrite rdc dma_config_val,
          RegWrite REG_STATUS_PB_UNDERRUN 0xFFFFFFFF,
          RegWrite REG_STATUS_CAP_OVERRUN 0xFFFFFFFF,
          RegWrite REG_STATUS_DMA_ERROR 0xFFFFFFFF] \<and>
     dma_config_val = 0x02000103"
    using assms(1) nz
    by (auto simp: irq_defs dma_config_val_def split: option.splits)
  have regs:
    "pcie_audio_read (snd (pcie_audio_interrupt rdc now chip)) REG_CTRL_PB_ENABLE = 0 \<and>
     pcie_audio_read (snd (pcie_audio_interrupt rdc now chip)) REG_CTRL_CAP_ENABLE = 0 \<and>
     pcie_audio_read (snd (pcie_audio_interrupt rdc now chip)) rdc = dma_config_val"
    using assms nz
    by (auto simp: pcie_audio_interrupt_def irq_dma_error_def irq_clear_status_def
        pcie_audio_write_def pcie_audio_read_def Let_def reg_defs)
  from log regs show ?thesis by (simp only: simp_thms)
qed

theorem irq_dma_error_resets_witness:
  "irq_status (status_chip 0 0 1 (Some 7)) AND 0xFF0000 \<noteq> 0 \<and>
   (0x400 :: nat) \<notin> {REG_CTRL_PB_ENABLE, REG_CTRL_CAP_ENABLE, REG_STATUS_PB_UNDERRUN,
                     REG_STATUS_CAP_OVERRUN, REG_STATUS_DMA_ERROR} \<and>
   fst (pcie_audio_interrupt 0x400 5000 (status_chip 0 0 1 (Some 7))) = IRQ_HANDLED \<and>
   dma_errors (stats (snd (pcie_audio_interrupt 0x400 5000 (status_chip 0 0 1 (Some 7))))) = 1 \<and>
   reg_writes (new_events (status_chip 0 0 1 (Some 7))
       (snd (pcie_audio_interrupt 0x400 5000 (status_chip 0 0 1 (Some 7)))))
     = [RegWrite REG_CTRL_PB_ENABLE 0, RegWrite REG_CTRL_CAP_ENABLE 0,
        RegWrite 0x400 dma_config_val,
        RegWrite REG_STATUS_PB_UNDERRUN 0xFFFFFFFF,
        RegWrite REG_STATUS_CAP_OVERRUN 0xFFFFFFFF,
        RegWrite REG_STATUS_DMA_ERROR 0xFFFFFFFF] \<and>
   pcie_audio_read (snd (pcie_audio_interrupt 0x400 5000 (status_chip 0 0 1 (Some 7))))
     REG_CTRL_PB_ENABLE = 0 \<and>
   pcie_audio_read (snd (pcie_audio_interrupt 0x400 5000 (status_chip 0 0 1 (Some 7))))
     REG_CTRL_CAP_ENABLE = 0 \<and>
   pcie_audio_read (snd (pcie_audio_interrupt 0x400 5000 (status_chip 0 0 1 (Some 7))))
     0x400 = 0x02000103"
proof -
  have h1: "irq_status (status_chip 0 0 1 (Some 7)) AND 0xFF0000 \<noteq> 0"
    by (simp add: fixture_defs)
  have h2: "(0x400 :: nat) \<notin> {REG_CTRL_PB_ENABLE, REG_CTRL_CAP_ENABLE,
              REG_STATUS_PB_UNDERRUN, REG_STATUS_CAP_OVERRUN, REG_STATUS_DMA_ERROR}"
    by (simp add: reg_defs)
  have z: "dma_errors (stats (status_chip 0 0 1 (Some 7))) = 0"
    by (simp add: fixture_defs)
  from irq_dma_error_resets [OF h1 h2, of 5000] h1 h2 z show ?thesis
    by simp
qed

section \<open>open\<close>

text \<open>
  C4, as the code has it. Opening a direction always returns 0. It binds the given
  session to the stream of that direction, whatever was bound before, sets the interrupt
  counter, the error counter and the latency to zero and the time of the last interrupt
  to the current time, and changes nothing else of the stream and nothing of the
  registers, the statistics or the log.
\<close>

theorem open_binds_and_resets:
  "pcie_audio_pcm_open now ss dir chip =
     (0, set_stream dir
           ((get_stream dir chip)\<lparr>substream := Some ss, last_interrupt := now,
               interrupts := 0, errors := 0, latency := 0\<rparr>) chip)
   \<and> substream (get_stream dir (snd (pcie_audio_pcm_open now ss dir chip))) = Some ss
   \<and> interrupts (get_stream dir (snd (pcie_audio_pcm_open now ss dir chip))) = 0
   \<and> errors (get_stream dir (snd (pcie_audio_pcm_open now ss dir chip))) = 0
   \<and> latency (get_stream dir (snd (pcie_audio_pcm_open now ss dir chip))) = 0
   \<and> last_interrupt (get_stream dir (snd (pcie_audio_pcm_open now ss dir chip))) = now
   \<and> regs (snd (pcie_audio_pcm_open now ss dir chip)) = regs chip
   \<and> stats (snd (pcie_audio_pcm_open now ss dir chip)) = stats chip
   \<and> events (snd (pcie_audio_pcm_open now ss dir chip)) = events chip"
  by (simp add: pcie_audio_pcm_open_def Let_def get_stream_def set_stream_def)

text \<open>
  C4, as the claim has it, fails: opening playback while session 1 is bound to it
  returns 0, and session 2 takes the place of session 1.
\<close>

theorem open_already_bound_counterexample:
  "substream (playback (status_chip 0 0 0 (Some 1))) = Some 1 \<and>
   fst (pcie_audio_pcm_open 5000 2 SNDRV_PCM_STREAM_PLAYBACK (status_chip 0 0 0 (Some 1))) = 0 \<and>
   substream (playback (snd (pcie_audio_pcm_open 5000 2 SNDRV_PCM_STREAM_PLAYBACK
                               (status_chip 0 0 0 (Some 1))))) = Some 2"
  by (simp add: pcie_audio_pcm_open_def Let_def get_stream_def set_stream_def fixture_defs)

section \<open>The descriptor ring\<close>

lemma init_descriptors_map:
  "length ds = unat count \<Longrightarrow> i \<le> unat count \<Longrightarrow>
   init_descriptors buf pb dma count i ds
     = take i ds @ map (init_desc buf pb dma count) [i..<unat count]"
proof (induction buf pb dma count i ds rule: init_descriptors.induct)
  case (1 buf pb dma count i ds)
  show ?case
  proof (cases "i < unat count")
    case True
    with "1.prems" have len: "length (ds[i := init_desc buf pb dma count i]) = unat count"
      and le: "i + 1 \<le> unat count" by simp_all
    have "init_descriptors buf pb dma count i ds
          = init_descriptors buf pb dma count (i + 1) (ds[i := init_desc buf pb dma count i])"
      using True by (simp del: init_descriptors.simps add: init_descriptors.simps [of _ _ _ _ i])
    also have "\<dots> = take (i + 1) (ds[i := init_desc buf pb dma count i])
                 @ map (init_desc buf pb dma count) [i + 1..<unat count]"
      using "1.IH" [OF True len le] .
    also have "take (i + 1) (ds[i := init_desc buf pb dma count i])
                = take i ds @ [init_desc buf pb dma count i]"
      using True "1.prems" by (simp add: take_Suc_conv_app_nth)
    finally show ?thesis using True by (simp add: upt_conv_Cons)
  next
    case False
    with "1.prems" show ?thesis by simp
  qed
qed

lemma ring_built:
  "init_descriptors buf pb dma count 0 (replicate (unat count) zero_desc)
     = map (init_desc buf pb dma count) [0..<unat count]"
  by (simp add: init_descriptors_map del: init_descriptors.simps)

lemma has_wrap_init_desc:
  "has_wrap (init_desc buf pb dma count i) \<longleftrightarrow> (of_nat i :: u32) = count - 1"
  by (simp add: has_wrap_def init_desc_def DESC_FLAG_WRAP_def DESC_FLAG_INT_def)

lemma lt32: "unat (c :: u32) < 2 ^ 32"
  using unsigned_less [of c, where ?'a = nat] by simp

lemma of_nat_last:
  assumes "i < unat (c :: u32)"
  shows "((of_nat i :: u32) = c - 1) = (i = unat c - 1)"
proof -
  from assms have c: "c \<noteq> 0" by auto
  have i: "unat (of_nat i :: u32) = i"
    using assms lt32 [of c] by (simp add: unat_of_nat)
  have "unat (c - 1) = unat c - 1"
    using c by (simp add: unat_minus_one)
  with i show ?thesis by (simp add: word_unat_eq_iff)
qed

lemma filter_eq_upt: "filter (\<lambda>i. i = k) [0..<n] = (if k < n then [k] else [])"
  by (induction n) auto

lemma desc_index_slot:
  "k < 2 ^ 32 \<Longrightarrow> desc_index dma (dma + of_nat k * sizeof_desc) = k"
proof -
  assume k: "k < 2 ^ 32"
  have "unat (of_nat k * 24 :: u64) = k * 24"
    using k by (simp add: unat_word_ariths unat_of_nat)
  then show ?thesis
    by (simp add: desc_index_def sizeof_desc_def unat_div)
qed


lemma setup_success:
  "setup_ring (Some dma) runtime dir chip =
     (0, set_stream dir
           ((get_stream dir chip)
              \<lparr>desc_count := DMA_DESC_COUNT,
               desc := Some (map (init_desc (rt_dma_addr runtime)
                                   (frames_to_bytes runtime (rt_period_size runtime)) dma
                                   DMA_DESC_COUNT) [0..<unat DMA_DESC_COUNT]),
               desc_dma := dma,
               period_size := frames_to_bytes runtime (rt_period_size runtime),
               buffer_size := rt_dma_bytes runtime,
               periods := rt_periods runtime,
               current_desc := 0\<rparr>)
           (if desc (get_stream dir chip) \<noteq> None
            then dma_free_coherent dir (desc_dma (get_stream dir chip)) chip else chip))"
  by (simp add: setup_ring_def Let_def ring_built del: init_descriptors.simps)

lemma get_set_stream [simp]: "get_stream dir (set_stream dir st chip) = st"
  by (simp add: get_stream_def set_stream_def)

lemma ring_of_setup:
  "ring_of dir (snd (setup_ring (Some dma) runtime dir chip))
     = map (init_desc (rt_dma_addr runtime)
              (frames_to_bytes runtime (rt_period_size runtime)) dma DMA_DESC_COUNT)
         [0..<unat DMA_DESC_COUNT]"
  by (simp add: setup_success ring_of_def)

lemma wrap_indices_ring:
  assumes "0 < unat c"
  shows "wrap_indices (map (init_desc buf pb dma c) [0..<unat c]) = [unat c - 1]"
proof -
  have "filter (\<lambda>i. has_wrap (map (init_desc buf pb dma c) [0..<unat c] ! i)) [0..<unat c]
        = filter (\<lambda>i. i = unat c - 1) [0..<unat c]"
    by (rule filter_cong) (simp_all add: has_wrap_init_desc of_nat_last)
  then show ?thesis
    using assms by (simp add: wrap_indices_def filter_eq_upt)
qed

lemma next_index_ring:
  assumes "i < unat (c :: u32)"
  shows "next_index (map (init_desc buf pb dma c) [0..<unat c]) dma i = (i + 1) mod unat c"
proof -
  have "(i + 1) mod unat c < unat c" using assms by simp
  also have "unat c < 2 ^ 32" by (rule lt32)
  finally have "desc_index dma (dma + of_nat ((i + 1) mod unat c) * sizeof_desc)
                  = (i + 1) mod unat c"
    by (rule desc_index_slot)
  with assms show ?thesis
    by (simp add: next_index_def init_desc_def)
qed

lemma ring_walk_ring:
  "i + n \<le> unat c \<Longrightarrow>
   ring_walk (map (init_desc buf pb dma c) [0..<unat c]) dma n i = [i..<i + n]"
proof (induction n arbitrary: i)
  case 0
  then show ?case by simp
next
  case (Suc n)
  then have i: "i < unat c" by simp
  show ?case
  proof (cases n)
    case 0
    then show ?thesis by simp
  next
    case (Suc m)
    with Suc.prems have nxt: "(i + 1) mod unat c = i + 1" by simp
    have "[i..<i + Suc n] = i # [i + 1..<i + 1 + n]"
      by (simp add: upt_conv_Cons)
    moreover have "ring_walk (map (init_desc buf pb dma c) [0..<unat c]) dma n (i + 1)
                    = [i + 1..<i + 1 + n]"
      using Suc.prems by (intro Suc.IH) simp
    ultimately show ?thesis
      using i nxt by (simp only: ring_walk.simps next_index_ring)
  qed
qed

lemma next_index_last:
  "0 < unat c \<Longrightarrow>
   next_index (map (init_desc buf pb dma c) [0..<unat c]) dma (unat c - 1) = 0"
  by (simp add: next_index_ring)

lemma unat_DMA_DESC_COUNT: "unat DMA_DESC_COUNT = 32"
  by (simp add: DMA_DESC_COUNT_def)

text \<open>A stream with a session reads its runtime; without one the call faults.\<close>

lemma setup_bound:
  "substream (get_stream dir chip) = Some ss \<Longrightarrow>
   setup_dma_descriptors alloc runtime dir chip = Inr (setup_ring alloc runtime dir chip)"
  by (simp add: setup_dma_descriptors_def)

lemma setup_unbound:
  "substream (get_stream dir chip) = None \<Longrightarrow>
   setup_dma_descriptors alloc runtime dir chip = Inl NULL_DEREF"
  by (simp add: setup_dma_descriptors_def)

text \<open>
  The ring that lines 23-48 leave when the allocation succeeds, whatever the runtime
  holds: \<open>DMA_DESC_COUNT\<close> = 32 descriptors at the bus address given, \<open>WRAP\<close> on slot 31
  alone, and \<open>next\<close> leading from slot 0 through the slots 1, ..., 31 and back to slot 0.
\<close>

lemma ring_shape:
  "fst (setup_ring (Some dma) runtime dir chip) = 0 \<and>
   desc (get_stream dir (snd (setup_ring (Some dma) runtime dir chip))) \<noteq> None \<and>
   desc_dma (get_stream dir (snd (setup_ring (Some dma) runtime dir chip))) = dma \<and>
   desc_count (get_stream dir (snd (setup_ring (Some dma) runtime dir chip)))
     = DMA_DESC_COUNT \<and>
   length (ring_of dir (snd (setup_ring (Some dma) runtime dir chip))) = 32 \<and>
   wrap_indices (ring_of dir (snd (setup_ring (Some dma) runtime dir chip))) = [31] \<and>
   ring_walk (ring_of dir (snd (setup_ring (Some dma) runtime dir chip))) dma 32 0
     = [0..<32] \<and>
   next_index (ring_of dir (snd (setup_ring (Some dma) runtime dir chip))) dma 31 = 0"
proof -
  let ?ds = "ring_of dir (snd (setup_ring (Some dma) runtime dir chip))"
  have pos: "0 < unat DMA_DESC_COUNT" by (simp add: unat_DMA_DESC_COUNT)
  have "length ?ds = unat DMA_DESC_COUNT" by (simp add: ring_of_setup)
  then have len: "length ?ds = 32" by (simp only: unat_DMA_DESC_COUNT)
  have "wrap_indices ?ds = [unat DMA_DESC_COUNT - 1]"
    by (simp only: ring_of_setup wrap_indices_ring [OF pos])
  then have wrap: "wrap_indices ?ds = [31]" by (simp only: unat_DMA_DESC_COUNT) simp
  have "ring_walk ?ds dma (unat DMA_DESC_COUNT) 0 = [0..<0 + unat DMA_DESC_COUNT]"
    by (simp only: ring_of_setup) (rule ring_walk_ring, simp)
  then have walk: "ring_walk ?ds dma 32 0 = [0..<32]" by (simp only: unat_DMA_DESC_COUNT) simp
  have "next_index ?ds dma (unat DMA_DESC_COUNT - 1) = 0"
    by (simp only: ring_of_setup next_index_last [OF pos])
  then have ret0: "next_index ?ds dma 31 = 0" by (simp only: unat_DMA_DESC_COUNT) simp
  have rest: "fst (setup_ring (Some dma) runtime dir chip) = 0 \<and>
     desc (get_stream dir (snd (setup_ring (Some dma) runtime dir chip))) \<noteq> None \<and>
     desc_dma (get_stream dir (snd (setup_ring (Some dma) runtime dir chip))) = dma \<and>
     desc_count (get_stream dir (snd (setup_ring (Some dma) runtime dir chip)))
       = DMA_DESC_COUNT"
    by (simp add: setup_success)
  from rest len wrap walk ret0 show ?thesis by (simp only: simp_thms)
qed

lemma ring_slot:
  "i < unat c \<Longrightarrow>
   map (init_desc buf pb dma c) [0..<unat c] ! i = init_desc buf pb dma c i"
  by simp

text \<open>
  C1. The code builds the ring from the constant \<open>DMA_DESC_COUNT\<close> and not from the
  period count. For a playback stream with a bound session and a runtime of 8 periods of
  4096 bytes, a buffer of 32768 bytes, \<open>setup_dma_descriptors\<close> returns 0 with a ring of
  32 descriptors, not 8, and a descriptor count of 32. \<open>WRAP\<close> is on slot 31, and slot 8
  already addresses the first byte past the end of the buffer: the slots 8 to 31
  describe memory outside the buffer.
\<close>

theorem setup_ring_ignores_period_count:
  "substream (get_stream SNDRV_PCM_STREAM_PLAYBACK (status_chip 0 0 0 (Some 1))) = Some 1 \<and>
   unat (frames_to_bytes runtime_8x4096 (rt_period_size runtime_8x4096)) = 4096 \<and>
   unat (rt_periods runtime_8x4096) = 8 \<and>
   unat (rt_dma_bytes runtime_8x4096) = 8 * 4096 \<and>
   setup_dma_descriptors (Some 0x20000000) runtime_8x4096 SNDRV_PCM_STREAM_PLAYBACK (status_chip 0 0 0 (Some 1))
     = Inr (setup_ring (Some 0x20000000) runtime_8x4096 SNDRV_PCM_STREAM_PLAYBACK (status_chip 0 0 0 (Some 1))) \<and>
   fst (setup_ring (Some 0x20000000) runtime_8x4096 SNDRV_PCM_STREAM_PLAYBACK (status_chip 0 0 0 (Some 1))) = 0 \<and>
   length (ring_of SNDRV_PCM_STREAM_PLAYBACK (snd (setup_ring (Some 0x20000000) runtime_8x4096 SNDRV_PCM_STREAM_PLAYBACK (status_chip 0 0 0 (Some 1))))) = 32 \<and>
   desc_count (playback (snd (setup_ring (Some 0x20000000) runtime_8x4096 SNDRV_PCM_STREAM_PLAYBACK (status_chip 0 0 0 (Some 1))))) = 32 \<and>
   wrap_indices (ring_of SNDRV_PCM_STREAM_PLAYBACK (snd (setup_ring (Some 0x20000000) runtime_8x4096 SNDRV_PCM_STREAM_PLAYBACK (status_chip 0 0 0 (Some 1)))))
     = [31] \<and>
   address (ring_of SNDRV_PCM_STREAM_PLAYBACK (snd (setup_ring (Some 0x20000000) runtime_8x4096 SNDRV_PCM_STREAM_PLAYBACK (status_chip 0 0 0 (Some 1)))) ! 8)
     = rt_dma_addr runtime_8x4096 + rt_dma_bytes runtime_8x4096"
proof -
  have b: "substream (get_stream SNDRV_PCM_STREAM_PLAYBACK (status_chip 0 0 0 (Some 1))) = Some 1"
    by (simp add: fixture_defs)
  have rt: "unat (frames_to_bytes runtime_8x4096 (rt_period_size runtime_8x4096)) = 4096 \<and>
            unat (rt_periods runtime_8x4096) = 8 \<and>
            unat (rt_dma_bytes runtime_8x4096) = 8 * 4096"
    by (simp add: frames_to_bytes_def runtime_8x4096_def)
  have cnt: "desc_count (playback (snd (setup_ring (Some 0x20000000) runtime_8x4096 SNDRV_PCM_STREAM_PLAYBACK (status_chip 0 0 0 (Some 1)))))
               = 32"
    using ring_shape [of "0x20000000" runtime_8x4096 SNDRV_PCM_STREAM_PLAYBACK "status_chip 0 0 0 (Some 1)"]
    by (simp add: get_stream_def DMA_DESC_COUNT_def)
  have "(8::nat) < unat DMA_DESC_COUNT" by (simp add: unat_DMA_DESC_COUNT)
  then have "address (ring_of SNDRV_PCM_STREAM_PLAYBACK (snd (setup_ring (Some 0x20000000) runtime_8x4096 SNDRV_PCM_STREAM_PLAYBACK (status_chip 0 0 0 (Some 1)))) ! 8)
        = address (init_desc (rt_dma_addr runtime_8x4096)
                     (frames_to_bytes runtime_8x4096 (rt_period_size runtime_8x4096))
                     0x20000000 DMA_DESC_COUNT 8)"
    by (simp only: ring_of_setup ring_slot)
  then have past:
    "address (ring_of SNDRV_PCM_STREAM_PLAYBACK (snd (setup_ring (Some 0x20000000) runtime_8x4096 SNDRV_PCM_STREAM_PLAYBACK (status_chip 0 0 0 (Some 1)))) ! 8)
       = rt_dma_addr runtime_8x4096 + rt_dma_bytes runtime_8x4096"
    by (simp add: init_desc_def frames_to_bytes_def runtime_8x4096_def)
  from b rt cnt past setup_bound [OF b]
    ring_shape [of "0x20000000" runtime_8x4096 SNDRV_PCM_STREAM_PLAYBACK "status_chip 0 0 0 (Some 1)"]
  show ?thesis by (simp only: simp_thms)
qed

section \<open>hw_params\<close>

lemma write_frame [simp]:
  "events (pcie_audio_write r v c) = events c @ [RegWrite r v]"
  "regs (pcie_audio_write r v c) = (regs c)(r := v)"
  "stats (pcie_audio_write r v c) = stats c"
  "playback (pcie_audio_write r v c) = playback c"
  "capture (pcie_audio_write r v c) = capture c"
  by (simp_all add: pcie_audio_write_def)

lemma get_stream_write [simp]:
  "get_stream dir (pcie_audio_write r v c) = get_stream dir c"
  by (simp add: get_stream_def)

lemma setup_events:
  "events (snd (setup_ring alloc runtime dir chip))
     = events chip @ (if desc (get_stream dir chip) \<noteq> None
                      then [DmaFree dir (desc_dma (get_stream dir chip))] else [])"
  by (cases alloc)
     (simp_all add: setup_ring_def Let_def set_stream_def dma_free_coherent_def
        del: init_descriptors.simps)

lemma setup_regs:
  "regs (snd (setup_ring alloc runtime dir chip)) = regs chip"
  by (cases alloc)
     (simp_all add: setup_ring_def Let_def set_stream_def dma_free_coherent_def
        del: init_descriptors.simps)

lemma setup_fst:
  "fst (setup_ring alloc runtime dir chip) = (if alloc = None then - ENOMEM else 0)"
  by (cases alloc) (simp_all add: setup_ring_def Let_def del: init_descriptors.simps)

lemma setup_stream_fields:
  "period_size (get_stream dir (snd (setup_ring (Some dma) runtime dir chip)))
     = frames_to_bytes runtime (rt_period_size runtime)"
  "desc_count (get_stream dir (snd (setup_ring (Some dma) runtime dir chip)))
     = DMA_DESC_COUNT"
  "desc_dma (get_stream dir (snd (setup_ring (Some dma) runtime dir chip))) = dma"
  by (simp_all add: setup_success)

lemma set_stream_frame [simp]:
  "regs (set_stream dir st chip) = regs chip"
  "events (set_stream dir st chip) = events chip"
  "stats (set_stream dir st chip) = stats chip"
  by (simp_all add: set_stream_def)

lemma hw_params_fail_malloc:
  "malloc_ret < 0 \<Longrightarrow>
   hw_params_bound malloc_ret alloc runtime dir params chip = (malloc_ret, chip)"
  by (simp add: hw_params_bound_def hw_params_after_setup_def)

lemma hw_params_fail_alloc:
  assumes "0 \<le> malloc_ret"
  shows "fst (hw_params_bound malloc_ret None runtime dir params chip) = - ENOMEM"
    and "regs (snd (hw_params_bound malloc_ret None runtime dir params chip)) = regs chip"
    and "reg_writes (new_events chip
           (snd (hw_params_bound malloc_ret None runtime dir params chip))) = []"
  using assms
  by (simp_all add: hw_params_bound_def hw_params_after_setup_def split_beta setup_fst setup_regs setup_events
      ENOMEM_def snd_pcm_lib_free_pages_def new_events_def reg_writes_def)

lemma hw_params_ok:
  assumes "0 \<le> malloc_ret"
  shows "fst (hw_params_bound malloc_ret (Some dma) runtime dir params chip) = 0"
    and "events (snd (hw_params_bound malloc_ret (Some dma) runtime dir params chip))
          = events chip
            @ (if desc (get_stream dir chip) \<noteq> None
               then [DmaFree dir (desc_dma (get_stream dir chip))] else [])
            @ hw_params_writes dma runtime dir params"
  using assms
  by (simp_all add: hw_params_bound_def hw_params_after_setup_def split_beta setup_fst Let_def
      hw_params_dma_regs_def setup_events setup_stream_fields hw_params_writes_def)

lemma hw_params_regs:
  assumes "0 \<le> malloc_ret"
  shows "regs (snd (hw_params_bound malloc_ret (Some dma) runtime dir params chip))
           REG_CTRL_FORMAT
         = format_ctrl_val (params_physical_width params) (params_channels params)"
    and "regs (snd (hw_params_bound malloc_ret (Some dma) runtime dir params chip))
           REG_CTRL_SAMPLE_FAMILY = rate_ctrl_val (params_rate params)"
    and "regs (snd (hw_params_bound malloc_ret (Some dma) runtime dir params chip))
           REG_CTRL_TARGET_RATE = params_rate params"
  using assms
  by (simp_all add: hw_params_bound_def hw_params_after_setup_def split_beta setup_fst Let_def reg_defs)

lemma hw_params_stream:
  assumes "0 \<le> malloc_ret"
  shows "channels (get_stream dir
           (snd (hw_params_bound malloc_ret (Some dma) runtime dir params chip)))
         = params_channels params"
  using assms
  by (simp add: hw_params_bound_def hw_params_after_setup_def split_beta setup_fst Let_def hw_params_dma_regs_def
      get_stream_def set_stream_def)

lemma reg_writes_simps [simp]:
  "reg_writes [] = []"
  "reg_writes (RegWrite r v # es) = RegWrite r v # reg_writes es"
  "reg_writes (DmaFree d h # es) = reg_writes es"
  "reg_writes (LibFreePages # es) = reg_writes es"
  "reg_writes (Msleep n # es) = reg_writes es"
  "reg_writes (DevWarn # es) = reg_writes es"
  "reg_writes (StopXrun d ss # es) = reg_writes es"
  "reg_writes (PeriodElapsed d ss # es) = reg_writes es"
  "reg_writes (xs @ ys) = reg_writes xs @ reg_writes ys"
  by (simp_all add: reg_writes_def)

lemma reg_writes_hw_params_writes [simp]:
  "reg_writes (hw_params_writes dma runtime dir params) = hw_params_writes dma runtime dir params"
  by (simp add: hw_params_writes_def Let_def)

lemma hw_params_bound_eq:
  "substream (get_stream dir chip) = Some ss \<Longrightarrow>
   pcie_audio_hw_params malloc_ret alloc runtime dir params chip
     = Inr (hw_params_bound malloc_ret alloc runtime dir params chip)"
  by (simp add: pcie_audio_hw_params_def hw_params_bound_def setup_bound split_beta)

lemma hw_params_Inr:
  "pcie_audio_hw_params malloc_ret alloc runtime dir params chip = Inr r \<Longrightarrow>
   r = hw_params_bound malloc_ret alloc runtime dir params chip"
  by (cases "substream (get_stream dir chip)")
     (auto simp: pcie_audio_hw_params_def hw_params_bound_def setup_dma_descriptors_def
        split_beta split: if_splits)

lemma hw_params_bound_result:
  "fst (hw_params_bound malloc_ret alloc runtime dir params chip)
     = (if malloc_ret < 0 then malloc_ret else if alloc = None then - ENOMEM else 0) \<and>
   (if malloc_ret < 0
    then snd (hw_params_bound malloc_ret alloc runtime dir params chip) = chip
    else case alloc of
           None \<Rightarrow>
             regs (snd (hw_params_bound malloc_ret alloc runtime dir params chip))
               = regs chip \<and>
             reg_writes (new_events chip
               (snd (hw_params_bound malloc_ret alloc runtime dir params chip))) = []
         | Some dma \<Rightarrow>
             reg_writes (new_events chip
               (snd (hw_params_bound malloc_ret alloc runtime dir params chip)))
               = hw_params_writes dma runtime dir params)"
proof (cases "malloc_ret < 0")
  case True
  then show ?thesis by (simp add: hw_params_fail_malloc)
next
  case False
  then have m: "0 \<le> malloc_ret" by simp
  show ?thesis
  proof (cases alloc)
    case None
    with False hw_params_fail_alloc [OF m] show ?thesis by simp
  next
    case (Some dma)
    with False hw_params_ok [OF m] show ?thesis
      by (simp add: new_events_def)
  qed
qed

text \<open>
  C2, as the code has it. For a stream with a bound session, \<open>pcie_audio_hw_params\<close>
  checks no range: what it returns depends only on the two allocations, never on the
  values of the parameters. When the buffer allocation fails it returns that error and
  the chip is unchanged. When the allocation of the ring fails it returns \<open>-ENOMEM\<close> and
  no register has been written. Otherwise it returns 0, and its register writes are the
  four DMA registers of the direction, the format register, the sample family register
  and the target rate register, in this order.
\<close>

theorem hw_params_no_validation:
  assumes "substream (get_stream dir chip) = Some ss"
  shows "pcie_audio_hw_params malloc_ret alloc runtime dir params chip
           = Inr (hw_params_bound malloc_ret alloc runtime dir params chip) \<and>
   fst (hw_params_bound malloc_ret alloc runtime dir params chip)
     = (if malloc_ret < 0 then malloc_ret else if alloc = None then - ENOMEM else 0) \<and>
   (if malloc_ret < 0
    then snd (hw_params_bound malloc_ret alloc runtime dir params chip) = chip
    else case alloc of
           None \<Rightarrow>
             regs (snd (hw_params_bound malloc_ret alloc runtime dir params chip))
               = regs chip \<and>
             reg_writes (new_events chip
               (snd (hw_params_bound malloc_ret alloc runtime dir params chip))) = []
         | Some dma \<Rightarrow>
             reg_writes (new_events chip
               (snd (hw_params_bound malloc_ret alloc runtime dir params chip)))
               = hw_params_writes dma runtime dir params)"
  by (rule conjI [OF hw_params_bound_eq [OF assms] hw_params_bound_result])

theorem hw_params_no_validation_witness:
  "substream (get_stream SNDRV_PCM_STREAM_PLAYBACK (status_chip 0 0 0 (Some 1))) = Some 1 \<and>
   pcie_audio_hw_params 0 None runtime_8x4096 SNDRV_PCM_STREAM_PLAYBACK params_9ch (status_chip 0 0 0 (Some 1))
     = Inr (hw_params_bound 0 None runtime_8x4096 SNDRV_PCM_STREAM_PLAYBACK params_9ch (status_chip 0 0 0 (Some 1))) \<and>
   fst (hw_params_bound 0 None runtime_8x4096 SNDRV_PCM_STREAM_PLAYBACK params_9ch (status_chip 0 0 0 (Some 1))) = - ENOMEM \<and>
   regs (snd (hw_params_bound 0 None runtime_8x4096 SNDRV_PCM_STREAM_PLAYBACK params_9ch (status_chip 0 0 0 (Some 1)))) = regs (status_chip 0 0 0 (Some 1)) \<and>
   reg_writes (new_events (status_chip 0 0 0 (Some 1)) (snd (hw_params_bound 0 None runtime_8x4096 SNDRV_PCM_STREAM_PLAYBACK params_9ch (status_chip 0 0 0 (Some 1)))))
     = []"
proof -
  have h: "substream (get_stream SNDRV_PCM_STREAM_PLAYBACK (status_chip 0 0 0 (Some 1))) = Some 1"
    by (simp add: fixture_defs)
  from hw_params_no_validation [OF h, of 0 None runtime_8x4096 params_9ch] h
  show ?thesis by simp
qed

text \<open>
  C2, as the claim has it, fails: on a playback stream with a bound session, a call with
  9 channels, more than \<open>MAX_CHANNELS\<close>, returns 0, stores the 9 channels in the stream
  and writes the format register.
\<close>

theorem hw_params_nine_channels_counterexample:
  "substream (get_stream SNDRV_PCM_STREAM_PLAYBACK (status_chip 0 0 0 (Some 1))) = Some 1 \<and>
   \<not> unat (params_channels params_9ch) \<le> MAX_CHANNELS \<and>
   pcie_audio_hw_params 0 (Some 0x20000000) runtime_8x4096 SNDRV_PCM_STREAM_PLAYBACK params_9ch (status_chip 0 0 0 (Some 1))
     = Inr (hw_params_bound 0 (Some 0x20000000) runtime_8x4096 SNDRV_PCM_STREAM_PLAYBACK params_9ch (status_chip 0 0 0 (Some 1))) \<and>
   fst (hw_params_bound 0 (Some 0x20000000) runtime_8x4096 SNDRV_PCM_STREAM_PLAYBACK params_9ch (status_chip 0 0 0 (Some 1))) = 0 \<and>
   channels (playback (snd (hw_params_bound 0 (Some 0x20000000) runtime_8x4096 SNDRV_PCM_STREAM_PLAYBACK
          params_9ch (status_chip 0 0 0 (Some 1))))) = 9 \<and>
   regs (snd (hw_params_bound 0 (Some 0x20000000) runtime_8x4096 SNDRV_PCM_STREAM_PLAYBACK params_9ch (status_chip 0 0 0 (Some 1))))
     REG_CTRL_FORMAT = 0x1008 \<and>
   regs (status_chip 0 0 0 (Some 1)) REG_CTRL_FORMAT = 0"
proof -
  have h: "substream (get_stream SNDRV_PCM_STREAM_PLAYBACK (status_chip 0 0 0 (Some 1))) = Some 1"
    by (simp add: fixture_defs)
  have m: "(0::int) \<le> 0" by simp
  from hw_params_bound_eq [OF h] hw_params_ok(1) [OF m] hw_params_regs(1) [OF m]
    hw_params_stream [OF m, of SNDRV_PCM_STREAM_PLAYBACK] h
  show ?thesis
    by (simp add: params_9ch_def MAX_CHANNELS_def format_ctrl_val_def get_stream_def
        status_chip_def zero_chip_def)
qed

lemma bit_above: "(x :: u32) < 2 ^ n \<Longrightarrow> n \<le> m \<Longrightarrow> \<not> bit x m"
proof -
  assume lt: "x < 2 ^ n" and le: "n \<le> m"
  from lt have "x AND mask n = x" by (rule less_mask_eq)
  then have "bit x m = bit (x AND mask n) m" by simp
  also have "\<dots> = False" using le by (simp add: bit_simps)
  finally show ?thesis by simp
qed

lemma format_get_bit: "format_get chip = (if bit (pcie_audio_read chip REG_CTRL_FORMAT) 31 then 1 else 0)"
proof -
  have "drop_bit 31 w AND 1 = (if bit w 31 then 1 else 0)" for w :: u32
    by (rule bit_word_eqI) (auto simp: bit_simps intro!: gr0I)
  then show ?thesis by (simp add: format_get_def)
qed

text \<open>
  C10, as the code has it. A successful \<open>pcie_audio_hw_params\<close> for either direction
  leaves \<open>(physical_width << 8) | (channels - 1)\<close> in the format register, whatever the
  register held before. With at least one and at most \<open>2^31\<close> channels and a physical
  width below \<open>2^23\<close>, bit 31 of that value is 0: the DSD flag that \<open>format_put\<close> may
  have set reads back as 0.
\<close>

theorem hw_params_clears_dsd_flag:
  assumes "substream (get_stream dir chip) = Some ss"
      and "0 \<le> malloc_ret"
      and "1 \<le> params_channels params" and "params_channels params \<le> 0x80000000"
      and "params_physical_width params < 0x800000"
  shows "pcie_audio_hw_params malloc_ret (Some dma) runtime dir params chip
           = Inr (hw_params_bound malloc_ret (Some dma) runtime dir params chip) \<and>
         fst (hw_params_bound malloc_ret (Some dma) runtime dir params chip) = 0 \<and>
         pcie_audio_read
           (snd (hw_params_bound malloc_ret (Some dma) runtime dir params chip))
           REG_CTRL_FORMAT
         = push_bit 8 (params_physical_width params) OR (params_channels params - 1) \<and>
         \<not> bit (pcie_audio_read
                  (snd (hw_params_bound malloc_ret (Some dma) runtime dir params chip))
                  REG_CTRL_FORMAT) 31 \<and>
         format_get (snd (hw_params_bound malloc_ret (Some dma) runtime dir params chip))
           = 0"
proof -
  let ?v = "push_bit 8 (params_physical_width params) OR (params_channels params - 1)"
  have rd: "pcie_audio_read
           (snd (hw_params_bound malloc_ret (Some dma) runtime dir params chip))
           REG_CTRL_FORMAT = ?v"
    using hw_params_regs(1) [OF assms(2)]
    by (simp add: pcie_audio_read_def format_ctrl_val_def)
  have "params_physical_width params < 2 ^ 23" using assms(5) by simp
  then have w: "\<not> bit (params_physical_width params) 23" by (rule bit_above) simp
  have "params_channels params - 1 < 2 ^ 31"
    using assms(3,4) by (simp add: word_less_nat_alt word_le_nat_alt unat_sub)
  then have c: "\<not> bit (params_channels params - 1) 31" by (rule bit_above) simp
  from w c have b: "\<not> bit ?v 31" by (simp add: bit_simps)
  from rd b hw_params_bound_eq [OF assms(1)] hw_params_ok(1) [OF assms(2)]
  show ?thesis by (simp add: format_get_bit)
qed

theorem hw_params_clears_dsd_flag_witness:
  "substream (get_stream SNDRV_PCM_STREAM_PLAYBACK (snd (format_put 1 (status_chip 0 0 0 (Some 1))))) = Some 1 \<and>
   (0::int) \<le> 0 \<and> 1 \<le> params_channels params_96k_24bit_stereo \<and>
   params_channels params_96k_24bit_stereo \<le> 0x80000000 \<and>
   params_physical_width params_96k_24bit_stereo < 0x800000 \<and>
   format_get (snd (format_put 1 (status_chip 0 0 0 (Some 1)))) = 1 \<and>
   pcie_audio_hw_params 0 (Some 0x20000000) runtime_8x4096 SNDRV_PCM_STREAM_PLAYBACK params_96k_24bit_stereo
       (snd (format_put 1 (status_chip 0 0 0 (Some 1))))
     = Inr (hw_params_bound 0 (Some 0x20000000) runtime_8x4096 SNDRV_PCM_STREAM_PLAYBACK params_96k_24bit_stereo
              (snd (format_put 1 (status_chip 0 0 0 (Some 1))))) \<and>
   format_get
     (snd (hw_params_bound 0 (Some 0x20000000) runtime_8x4096 SNDRV_PCM_STREAM_PLAYBACK
             params_96k_24bit_stereo (snd (format_put 1 (status_chip 0 0 0 (Some 1)))))) = 0 \<and>
   pcie_audio_read
     (snd (hw_params_bound 0 (Some 0x20000000) runtime_8x4096 SNDRV_PCM_STREAM_PLAYBACK
             params_96k_24bit_stereo (snd (format_put 1 (status_chip 0 0 0 (Some 1)))))) REG_CTRL_FORMAT = 0x1801"
proof -
  have h0: "substream (get_stream SNDRV_PCM_STREAM_PLAYBACK (snd (format_put 1 (status_chip 0 0 0 (Some 1))))) = Some 1"
    by (simp add: format_put_def Let_def fixture_defs)
  have h1: "(0::int) \<le> 0" by simp
  have h2: "1 \<le> params_channels params_96k_24bit_stereo"
   and h3: "params_channels params_96k_24bit_stereo \<le> 0x80000000"
   and h4: "params_physical_width params_96k_24bit_stereo < 0x800000"
    by (simp_all add: params_96k_24bit_stereo_def)
  have before: "format_get (snd (format_put 1 (status_chip 0 0 0 (Some 1)))) = 1"
    by (simp add: format_get_def format_put_def Let_def fixture_defs)
  from hw_params_clears_dsd_flag [OF h0 h1 h2 h3 h4] h0 h2 h3 h4 before show ?thesis
    by (simp add: params_96k_24bit_stereo_def)
qed

text \<open>
  C10, as the claim has it, fails: on a playback stream with a bound session, a call with
  0 channels returns 0 as well, \<open>channels - 1\<close> wraps around, the format register holds
  \<open>0xFFFFFFFF\<close>, and the DSD flag reads back as 1.
\<close>

theorem hw_params_zero_channels_counterexample:
  "substream (get_stream SNDRV_PCM_STREAM_PLAYBACK (status_chip 0 0 0 (Some 1))) = Some 1 \<and>
   params_channels params_0ch = 0 \<and>
   format_get (status_chip 0 0 0 (Some 1)) = 0 \<and>
   pcie_audio_hw_params 0 (Some 0x20000000) runtime_8x4096 SNDRV_PCM_STREAM_PLAYBACK params_0ch (status_chip 0 0 0 (Some 1))
     = Inr (hw_params_bound 0 (Some 0x20000000) runtime_8x4096 SNDRV_PCM_STREAM_PLAYBACK params_0ch (status_chip 0 0 0 (Some 1))) \<and>
   fst (hw_params_bound 0 (Some 0x20000000) runtime_8x4096 SNDRV_PCM_STREAM_PLAYBACK params_0ch (status_chip 0 0 0 (Some 1))) = 0 \<and>
   pcie_audio_read (snd (hw_params_bound 0 (Some 0x20000000) runtime_8x4096 SNDRV_PCM_STREAM_PLAYBACK params_0ch (status_chip 0 0 0 (Some 1))))
     REG_CTRL_FORMAT = 0xFFFFFFFF \<and>
   format_get (snd (hw_params_bound 0 (Some 0x20000000) runtime_8x4096 SNDRV_PCM_STREAM_PLAYBACK params_0ch (status_chip 0 0 0 (Some 1)))) = 1"
proof -
  have h: "substream (get_stream SNDRV_PCM_STREAM_PLAYBACK (status_chip 0 0 0 (Some 1))) = Some 1"
    by (simp add: fixture_defs)
  have m: "(0::int) \<le> 0" by simp
  have z: "format_get (status_chip 0 0 0 (Some 1)) = 0"
    by (simp add: format_get_def fixture_defs)
  have rd: "pcie_audio_read
      (snd (hw_params_bound 0 (Some 0x20000000) runtime_8x4096 SNDRV_PCM_STREAM_PLAYBACK params_0ch (status_chip 0 0 0 (Some 1))))
      REG_CTRL_FORMAT = 0xFFFFFFFF"
    using hw_params_regs(1) [OF m]
    by (simp add: pcie_audio_read_def format_ctrl_val_def params_0ch_def)
  then have g: "format_get
      (snd (hw_params_bound 0 (Some 0x20000000) runtime_8x4096 SNDRV_PCM_STREAM_PLAYBACK params_0ch (status_chip 0 0 0 (Some 1)))) = 1"
    by (simp add: format_get_def)
  from h z rd g hw_params_bound_eq [OF h] hw_params_ok(1) [OF m]
  show ?thesis by (simp add: params_0ch_def)
qed








section \<open>Hardware initialisation\<close>

lemma wait_clock_lock_result:
  "wait_clock_lock polls chip =
     (clock_locks polls,
      chip\<lparr>events := events chip
                @ replicate (length (takeWhile (\<lambda>v. v = 0) polls)) (Msleep 1)\<rparr>)"
proof (induction polls arbitrary: chip)
  case Nil
  then show ?case by (simp add: clock_locks_def)
next
  case (Cons v vs)
  then show ?case
    by (simp add: clock_locks_def msleep_def replicate_app_Cons_same)
qed

lemma init_hw_prefix_events:
  "events (init_hw_prefix rdc chip)
     = events chip @
       [RegWrite REG_CTRL_RESET 1, Msleep 1, RegWrite REG_CTRL_RESET 0, Msleep 1,
        RegWrite rdc dma_config_val,
        RegWrite REG_DMA_PB_THRESHOLD 1024, RegWrite REG_DMA_CAP_THRESHOLD 1024,
        RegWrite REG_CTRL_FORMAT (push_bit 8 24 OR (8 - 1)),
        RegWrite REG_CTRL_SYNC_TIMEOUT (push_bit 16 48000 OR 1)]"
  by (simp add: init_hw_prefix_def Let_def msleep_def dma_config_val_def)

lemma init_hw_locked_events:
  "events (init_hw_locked rpc cs chip)
     = events chip @ RegWrite rpc (pcie_config_val cs) # status_clear_writes"
  by (simp add: init_hw_locked_def Let_def status_clear_writes_def pcie_config_val_def)

lemma init_hw_events:
  "events (snd (pcie_audio_init_hw rdc rpc cs polls chip))
     = events (init_hw_prefix rdc chip)
       @ replicate (length (takeWhile (\<lambda>v. v = 0) polls)) (Msleep 1)
       @ (if clock_locks polls then RegWrite rpc (pcie_config_val cs) # status_clear_writes
          else [DevWarn])"
  by (simp add: pcie_audio_init_hw_def wait_clock_lock_result init_hw_locked_events
      dev_warn_def)

lemma reg_writes_replicate_msleep [simp]: "reg_writes (replicate k (Msleep n)) = []"
  by (simp add: reg_writes_def)

text \<open>
  What \<open>pcie_audio_init_hw\<close> does on its two paths: it returns 0 and begins with the
  reset pulse (write 1, sleep, write 0, sleep), followed by the writes of the DMA
  configuration baseline, the two default thresholds of 1024, the default format of 8
  channels of 24 bits, and the clock management word. The warning is logged exactly when
  the wait ends without the lock. The PCIe configuration write and the three status
  clearing writes stand after the label \<open>clock_locked\<close>.
\<close>

lemma init_hw_all_paths:
  "fst (pcie_audio_init_hw rdc rpc cs polls chip) = 0 \<and>
   take 4 (new_events chip (snd (pcie_audio_init_hw rdc rpc cs polls chip)))
     = [RegWrite REG_CTRL_RESET 1, Msleep 1, RegWrite REG_CTRL_RESET 0, Msleep 1] \<and>
   reg_writes (new_events chip (snd (pcie_audio_init_hw rdc rpc cs polls chip)))
     = init_hw_writes rdc
       @ (if clock_locks polls then RegWrite rpc (pcie_config_val cs) # status_clear_writes
          else []) \<and>
   (DevWarn \<in> set (new_events chip (snd (pcie_audio_init_hw rdc rpc cs polls chip))))
     = (\<not> clock_locks polls)"
proof -
  have r: "fst (pcie_audio_init_hw rdc rpc cs polls chip) = 0"
    by (simp add: pcie_audio_init_hw_def wait_clock_lock_result split: bool.splits)
  have e: "new_events chip (snd (pcie_audio_init_hw rdc rpc cs polls chip))
     = [RegWrite REG_CTRL_RESET 1, Msleep 1, RegWrite REG_CTRL_RESET 0, Msleep 1,
        RegWrite rdc dma_config_val,
        RegWrite REG_DMA_PB_THRESHOLD 1024, RegWrite REG_DMA_CAP_THRESHOLD 1024,
        RegWrite REG_CTRL_FORMAT (push_bit 8 24 OR (8 - 1)),
        RegWrite REG_CTRL_SYNC_TIMEOUT (push_bit 16 48000 OR 1)]
       @ replicate (length (takeWhile (\<lambda>v. v = 0) polls)) (Msleep 1)
       @ (if clock_locks polls then RegWrite rpc (pcie_config_val cs) # status_clear_writes
          else [DevWarn])"
    by (simp add: new_events_def init_hw_events init_hw_prefix_events)
  show ?thesis
    unfolding e using r
    by (simp add: init_hw_writes_def status_clear_writes_def)
qed

text \<open>
  C9. The path on which the wait for the clock lock times out returns at line 71, before
  the label \<open>clock_locked\<close>: with three polls that all read 0 the function returns 0
  after the writes that precede the wait, nothing is written to the status registers,
  and the three status registers, which held 1, still hold 1. With a poll that reads 1,
  from the same chip, the three status registers are cleared.
\<close>

theorem init_hw_timeout_skips_status_clear:
  "\<not> clock_locks [0, 0, 0] \<and>
   fst (pcie_audio_init_hw 0x400 0x404 0 [0, 0, 0] (status_chip 1 1 1 None)) = 0 \<and>
   reg_writes (new_events (status_chip 1 1 1 None)
       (snd (pcie_audio_init_hw 0x400 0x404 0 [0, 0, 0] (status_chip 1 1 1 None))))
     = init_hw_writes 0x400 \<and>
   pcie_audio_read (snd (pcie_audio_init_hw 0x400 0x404 0 [0, 0, 0] (status_chip 1 1 1 None)))
     REG_STATUS_PB_UNDERRUN = 1 \<and>
   pcie_audio_read (snd (pcie_audio_init_hw 0x400 0x404 0 [0, 0, 0] (status_chip 1 1 1 None)))
     REG_STATUS_CAP_OVERRUN = 1 \<and>
   pcie_audio_read (snd (pcie_audio_init_hw 0x400 0x404 0 [0, 0, 0] (status_chip 1 1 1 None)))
     REG_STATUS_DMA_ERROR = 1 \<and>
   clock_locks [0, 1] \<and>
   fst (pcie_audio_init_hw 0x400 0x404 0 [0, 1] (status_chip 1 1 1 None)) = 0 \<and>
   pcie_audio_read (snd (pcie_audio_init_hw 0x400 0x404 0 [0, 1] (status_chip 1 1 1 None)))
     REG_STATUS_PB_UNDERRUN = 0xFFFFFFFF \<and>
   pcie_audio_read (snd (pcie_audio_init_hw 0x400 0x404 0 [0, 1] (status_chip 1 1 1 None)))
     REG_STATUS_CAP_OVERRUN = 0xFFFFFFFF \<and>
   pcie_audio_read (snd (pcie_audio_init_hw 0x400 0x404 0 [0, 1] (status_chip 1 1 1 None)))
     REG_STATUS_DMA_ERROR = 0xFFFFFFFF"
  by (simp add: pcie_audio_init_hw_def init_hw_prefix_def init_hw_locked_def Let_def
      msleep_def dev_warn_def
      clock_locks_def new_events_def init_hw_writes_def dma_config_val_def
      pcie_audio_read_def status_chip_def zero_chip_def reg_defs)

section \<open>Releasing the ring and the enable register\<close>

lemma enable_after_append:
  "enable_after dir en (a @ b) = enable_after dir (enable_after dir en a) b"
  by (induction dir en a rule: enable_after.induct) simp_all

lemma freed_append:
  "freed_while_enabled dir en (a @ b)
     = (freed_while_enabled dir en a \<or> freed_while_enabled dir (enable_after dir en a) b)"
  by (induction dir en a rule: freed_while_enabled.induct) simp_all

lemma new_events_same [simp]: "new_events chip chip = []"
  by (simp add: new_events_def)

lemma new_events_app: "events chip' = events chip @ es \<Longrightarrow> new_events chip chip' = es"
  by (simp add: new_events_def)

lemma loggedI:
  "events chip' = events chip @ es \<Longrightarrow>
   enable_after dir (regs chip (enable_reg dir)) es = regs chip' (enable_reg dir) \<Longrightarrow>
   logged dir chip chip'"
  by (simp add: logged_def new_events_def)

lemma logged_trans:
  assumes "logged dir a b" and "logged dir b c"
  shows "logged dir a c"
    and "new_events a c = new_events a b @ new_events b c"
proof -
  from assms have e: "events c = events a @ (new_events a b @ new_events b c)"
    by (simp add: logged_def)
  then show n: "new_events a c = new_events a b @ new_events b c"
    by (rule new_events_app)
  from assms e show "logged dir a c"
    unfolding logged_def n by (simp add: enable_after_append)
qed

lemmas en_defs = enable_reg_def reg_defs

lemma open_logged:
  "logged dir chip (snd (pcie_audio_pcm_open now ss d chip))"
  "new_events chip (snd (pcie_audio_pcm_open now ss d chip)) = []"
  by (simp_all add: logged_def pcie_audio_pcm_open_def Let_def new_events_def)

lemma close_events:
  "events (snd (pcie_audio_pcm_close d chip))
     = events chip @ (if desc (get_stream d chip) \<noteq> None
                      then [DmaFree d (desc_dma (get_stream d chip))] else [])"
  "regs (snd (pcie_audio_pcm_close d chip)) = regs chip"
  by (simp_all add: pcie_audio_pcm_close_def Let_def dma_free_coherent_def)

lemma close_logged:
  "logged dir chip (snd (pcie_audio_pcm_close d chip))"
  by (rule loggedI [OF close_events(1)]) (simp add: close_events(2))

lemma hw_params_events:
  "events (snd (hw_params_bound m alloc runtime d params chip))
     = events chip @
       (if m < 0 then []
        else (if desc (get_stream d chip) \<noteq> None
              then [DmaFree d (desc_dma (get_stream d chip))] else [])
             @ (case alloc of None \<Rightarrow> [LibFreePages]
                | Some dma \<Rightarrow> hw_params_writes dma runtime d params))"
proof (cases "m < 0")
  case True
  then show ?thesis by (simp add: hw_params_fail_malloc)
next
  case False
  then have m: "0 \<le> m" by simp
  show ?thesis
  proof (cases alloc)
    case None
    with False show ?thesis
      by (simp add: hw_params_bound_def hw_params_after_setup_def split_beta setup_fst setup_events ENOMEM_def
          snd_pcm_lib_free_pages_def)
  next
    case (Some dma)
    with False hw_params_ok(2) [OF m] show ?thesis by simp
  qed
qed

lemma enable_after_hw_params_writes [simp]:
  "enable_after dir en (hw_params_writes dma runtime d params) = en"
  by (simp add: hw_params_writes_def Let_def en_defs)

lemma freed_hw_params_writes [simp]:
  "freed_while_enabled dir en (hw_params_writes dma runtime d params) = False"
  by (simp add: hw_params_writes_def Let_def en_defs)

lemma hw_params_enable:
  "regs (snd (hw_params_bound m alloc runtime d params chip)) (enable_reg dir)
     = regs chip (enable_reg dir)"
  by (cases alloc)
     (simp_all add: hw_params_bound_def hw_params_after_setup_def split_beta setup_fst setup_regs Let_def
       hw_params_dma_regs_def snd_pcm_lib_free_pages_def en_defs)

lemma hw_params_logged:
  "logged dir chip (snd (hw_params_bound m alloc runtime d params chip))"
  by (rule loggedI [OF hw_params_events])
     (simp add: hw_params_enable enable_after_append split: option.splits)

lemma prepare_events:
  "events (snd (pcie_audio_prepare d chip))
     = events chip @
       (if d = SNDRV_PCM_STREAM_PLAYBACK
        then [RegWrite REG_CTRL_PB_ENABLE 0, RegWrite REG_DMA_PB_IRQ_EN 0,
              RegWrite REG_STATUS_PB_UNDERRUN 0xFFFFFFFF]
        else [RegWrite REG_CTRL_CAP_ENABLE 0, RegWrite REG_DMA_CAP_IRQ_EN 0,
              RegWrite REG_STATUS_CAP_OVERRUN 0xFFFFFFFF])"
  by (simp add: pcie_audio_prepare_def Let_def)

lemma prepare_enable:
  "regs (snd (pcie_audio_prepare d chip)) (enable_reg dir)
     = (if d = dir then 0 else regs chip (enable_reg dir))"
  by (cases d; cases dir) (simp_all add: pcie_audio_prepare_def Let_def en_defs)

lemma prepare_logged:
  "logged dir chip (snd (pcie_audio_prepare d chip))"
  by (rule loggedI [OF prepare_events], simp only: prepare_enable)
     (cases d; cases dir; simp add: en_defs)

lemma trigger_events:
  "events (snd (pcie_audio_trigger now d cmd chip))
     = events chip @
       (if cmd = SNDRV_PCM_TRIGGER_START \<or> cmd = SNDRV_PCM_TRIGGER_RESUME then
          (if d = SNDRV_PCM_STREAM_PLAYBACK
           then [RegWrite REG_DMA_PB_IRQ_EN 1, RegWrite REG_CTRL_PB_ENABLE 1]
           else [RegWrite REG_DMA_CAP_IRQ_EN 1, RegWrite REG_CTRL_CAP_ENABLE 1])
        else if cmd = SNDRV_PCM_TRIGGER_STOP \<or> cmd = SNDRV_PCM_TRIGGER_SUSPEND then
          (if d = SNDRV_PCM_STREAM_PLAYBACK
           then [RegWrite REG_CTRL_PB_ENABLE 0, RegWrite REG_DMA_PB_IRQ_EN 0]
           else [RegWrite REG_CTRL_CAP_ENABLE 0, RegWrite REG_DMA_CAP_IRQ_EN 0])
        else [])"
  by (simp add: pcie_audio_trigger_def Let_def)

lemma trigger_enable:
  "regs (snd (pcie_audio_trigger now d cmd chip)) (enable_reg dir)
     = (if d = dir then
          (if cmd = SNDRV_PCM_TRIGGER_START \<or> cmd = SNDRV_PCM_TRIGGER_RESUME then 1
           else if cmd = SNDRV_PCM_TRIGGER_STOP \<or> cmd = SNDRV_PCM_TRIGGER_SUSPEND then 0
           else regs chip (enable_reg dir))
        else regs chip (enable_reg dir))"
  by (cases d; cases dir) (simp_all add: pcie_audio_trigger_def Let_def en_defs)

lemma trigger_logged:
  "logged dir chip (snd (pcie_audio_trigger now d cmd chip))"
  by (rule loggedI [OF trigger_events], simp only: trigger_enable)
     (cases d; cases dir; simp add: en_defs)

lemma logged_step:
  assumes "logged dir a b" and "logged dir b c"
      and "\<not> freed_while_enabled dir (regs a (enable_reg dir)) (new_events a b)"
      and "\<not> freed_while_enabled dir (regs b (enable_reg dir)) (new_events b c)"
  shows "\<not> freed_while_enabled dir (regs a (enable_reg dir)) (new_events a c)"
proof -
  from assms(1) have "enable_after dir (regs a (enable_reg dir)) (new_events a b)
                      = regs b (enable_reg dir)"
    by (simp add: logged_def)
  with assms(3,4) show ?thesis
    by (simp add: logged_trans(2) [OF assms(1,2)] freed_append)
qed

text \<open>The blocks of the interrupt handler.\<close>

lemma irq_playback_logged:
  "logged dir chip (irq_playback now st chip)"
  "\<not> freed_while_enabled dir en (new_events chip (irq_playback now st chip))"
  "regs (irq_playback now st chip) = regs chip"
  by (auto simp: irq_playback_def Let_def snd_pcm_stop_xrun_def snd_pcm_period_elapsed_def
      logged_def new_events_def split: option.splits)

lemma irq_capture_logged:
  "logged dir chip (irq_capture now st chip)"
  "\<not> freed_while_enabled dir en (new_events chip (irq_capture now st chip))"
  "regs (irq_capture now st chip) = regs chip"
  by (auto simp: irq_capture_def Let_def snd_pcm_stop_xrun_def snd_pcm_period_elapsed_def
      logged_def new_events_def split: option.splits)

lemma irq_dma_error_logged:
  "logged dir chip (irq_dma_error rdc st chip)"
  "\<not> freed_while_enabled dir en (new_events chip (irq_dma_error rdc st chip))"
  "rdc \<noteq> enable_reg dir \<Longrightarrow> regs chip (enable_reg dir) = 0 \<Longrightarrow>
     regs (irq_dma_error rdc st chip) (enable_reg dir) = 0"
  by (auto simp: irq_dma_error_def logged_def new_events_def pcie_audio_write_def)

lemma irq_clear_status_logged:
  "logged dir chip (irq_clear_status chip)"
  "\<not> freed_while_enabled dir en (new_events chip (irq_clear_status chip))"
  "regs (irq_clear_status chip) (enable_reg dir) = regs chip (enable_reg dir)"
  by (auto simp: irq_clear_status_def logged_def new_events_def pcie_audio_write_def en_defs)

lemma logged_refl: "logged dir chip chip"
  by (simp add: logged_def)

lemma irq_logged:
  "logged dir chip (snd (pcie_audio_interrupt rdc now chip))"
  "\<not> freed_while_enabled dir (regs chip (enable_reg dir))
       (new_events chip (snd (pcie_audio_interrupt rdc now chip)))"
  "rdc \<noteq> enable_reg dir \<Longrightarrow> regs chip (enable_reg dir) = 0 \<Longrightarrow>
     regs (snd (pcie_audio_interrupt rdc now chip)) (enable_reg dir) = 0"
proof -
  let ?st = "irq_status chip"
  let ?c1 = "irq_playback now ?st chip"
  let ?c2 = "irq_capture now ?st ?c1"
  let ?c3 = "irq_dma_error rdc ?st ?c2"
  let ?c4 = "irq_clear_status ?c3"
  have l1: "logged dir chip ?c1" by (rule irq_playback_logged)
  have l2: "logged dir ?c1 ?c2" by (rule irq_capture_logged)
  have l3: "logged dir ?c2 ?c3" by (rule irq_dma_error_logged)
  have l4: "logged dir ?c3 ?c4" by (rule irq_clear_status_logged)
  have l12: "logged dir chip ?c2" by (rule logged_trans(1) [OF l1 l2])
  have l13: "logged dir chip ?c3" by (rule logged_trans(1) [OF l12 l3])
  have l14: "logged dir chip ?c4" by (rule logged_trans(1) [OF l13 l4])
  have f12: "\<not> freed_while_enabled dir (regs chip (enable_reg dir)) (new_events chip ?c2)"
    by (rule logged_step [OF l1 l2]) (rule irq_playback_logged irq_capture_logged)+
  have f13: "\<not> freed_while_enabled dir (regs chip (enable_reg dir)) (new_events chip ?c3)"
    by (rule logged_step [OF l12 l3 f12]) (rule irq_dma_error_logged)
  have f14: "\<not> freed_while_enabled dir (regs chip (enable_reg dir)) (new_events chip ?c4)"
    by (rule logged_step [OF l13 l4 f13]) (rule irq_clear_status_logged)
  have res: "snd (pcie_audio_interrupt rdc now chip) = (if ?st = 0 then chip else ?c4)"
    by (simp add: pcie_audio_interrupt_def Let_def)
  show "logged dir chip (snd (pcie_audio_interrupt rdc now chip))"
    using l14 by (simp add: res logged_refl)
  show "\<not> freed_while_enabled dir (regs chip (enable_reg dir))
       (new_events chip (snd (pcie_audio_interrupt rdc now chip)))"
    using f14 by (simp add: res)
  show "regs (snd (pcie_audio_interrupt rdc now chip)) (enable_reg dir) = 0"
    if "rdc \<noteq> enable_reg dir" and "regs chip (enable_reg dir) = 0"
    using that
    by (simp add: res irq_clear_status_logged(3) irq_dma_error_logged(3)
        irq_capture_logged(3) irq_playback_logged(3))
qed

text \<open>One call of a sequence.\<close>

lemma step_logged: "pcm_step x chip = Inr chip' \<Longrightarrow> logged dir chip chip'"
  by (cases x)
     (auto simp: open_logged close_logged hw_params_logged prepare_logged trigger_logged
        irq_logged split: sum.splits dest!: hw_params_Inr)

lemma step_safe:
  assumes "\<not> (op_frees dir x \<and> running)"
      and "running \<or> regs chip (enable_reg dir) = 0"
      and "pcm_step x chip = Inr chip'"
  shows "\<not> freed_while_enabled dir (regs chip (enable_reg dir)) (new_events chip chip')"
proof (cases x)
  case (OpOpen now ss d)
  with assms(3) have c: "chip' = snd (pcie_audio_pcm_open now ss d chip)" by simp
  show ?thesis unfolding c by (simp add: open_logged)
next
  case (OpClose d)
  with assms(3) have c: "chip' = snd (pcie_audio_pcm_close d chip)" by simp
  from OpClose assms(1,2) show ?thesis unfolding c
    by (auto simp: new_events_app [OF close_events(1)])
next
  case (OpHwParams m alloc runtime d params)
  with assms(3) have c: "chip' = snd (hw_params_bound m alloc runtime d params chip)"
    by (auto split: sum.splits dest!: hw_params_Inr)
  from OpHwParams assms(1,2) show ?thesis unfolding c
    by (auto simp: new_events_app [OF hw_params_events] freed_append split: option.splits)
next
  case (OpPrepare d)
  with assms(3) have c: "chip' = snd (pcie_audio_prepare d chip)" by simp
  show ?thesis unfolding c by (simp add: new_events_app [OF prepare_events])
next
  case (OpTrigger now d cmd)
  with assms(3) have c: "chip' = snd (pcie_audio_trigger now d cmd chip)" by simp
  show ?thesis unfolding c by (simp add: new_events_app [OF trigger_events])
next
  case (OpInterrupt rdc now)
  with assms(3) have c: "chip' = snd (pcie_audio_interrupt rdc now chip)" by simp
  show ?thesis unfolding c by (simp add: irq_logged)
qed

lemma step_inv:
  assumes "op_apart dir x"
      and "running \<or> regs chip (enable_reg dir) = 0"
      and "pcm_step x chip = Inr chip'"
  shows "op_running dir running x \<or> regs chip' (enable_reg dir) = 0"
proof (cases x)
  case (OpOpen now ss d)
  with assms(3) have c: "chip' = snd (pcie_audio_pcm_open now ss d chip)" by simp
  from OpOpen assms(1,2) show ?thesis unfolding c
    by (simp add: pcie_audio_pcm_open_def Let_def)
next
  case (OpClose d)
  with assms(3) have c: "chip' = snd (pcie_audio_pcm_close d chip)" by simp
  from OpClose assms(1,2) show ?thesis unfolding c by (simp add: close_events)
next
  case (OpHwParams m alloc runtime d params)
  with assms(3) have c: "chip' = snd (hw_params_bound m alloc runtime d params chip)"
    by (auto split: sum.splits dest!: hw_params_Inr)
  from OpHwParams assms(1,2) show ?thesis unfolding c by (simp add: hw_params_enable)
next
  case (OpPrepare d)
  with assms(3) have c: "chip' = snd (pcie_audio_prepare d chip)" by simp
  from OpPrepare assms(1,2) show ?thesis unfolding c by (simp add: prepare_enable)
next
  case (OpTrigger now d cmd)
  with assms(3) have c: "chip' = snd (pcie_audio_trigger now d cmd chip)" by simp
  from OpTrigger assms(1,2) show ?thesis unfolding c by (auto simp: trigger_enable)
next
  case (OpInterrupt rdc now)
  with assms(3) have c: "chip' = snd (pcie_audio_interrupt rdc now chip)" by simp
  from OpInterrupt assms(1,2) show ?thesis unfolding c by (auto simp: irq_logged(3))
qed

lemma run_safe:
  "frees_stopped dir running xs \<Longrightarrow> running \<or> regs chip (enable_reg dir) = 0 \<Longrightarrow>
   logged dir chip (pcm_run xs chip) \<and>
   \<not> freed_while_enabled dir (regs chip (enable_reg dir)) (new_events chip (pcm_run xs chip))"
proof (induction xs arbitrary: chip running)
  case Nil
  then show ?case by (simp add: logged_refl)
next
  case (Cons x xs)
  show ?case
  proof (cases "pcm_step x chip")
    case (Inl f)
    then show ?thesis by (simp add: logged_refl)
  next
    case (Inr chip')
    from Cons.prems(1) have ok: "\<not> (op_frees dir x \<and> running)" and ap: "op_apart dir x"
      and rest: "frees_stopped dir (op_running dir running x) xs"
      by (simp_all split: if_splits)
    have l1: "logged dir chip chip'" by (rule step_logged [OF Inr])
    have f1: "\<not> freed_while_enabled dir (regs chip (enable_reg dir)) (new_events chip chip')"
      by (rule step_safe [OF ok Cons.prems(2) Inr])
    have inv: "op_running dir running x \<or> regs chip' (enable_reg dir) = 0"
      by (rule step_inv [OF ap Cons.prems(2) Inr])
    from Cons.IH [OF rest inv]
    have l2: "logged dir chip' (pcm_run xs chip')"
      and f2: "\<not> freed_while_enabled dir (regs chip' (enable_reg dir))
                 (new_events chip' (pcm_run xs chip'))"
      by simp_all
    from logged_trans(1) [OF l1 l2] logged_step [OF l1 l2 f1 f2] Inr show ?thesis by simp
  qed
qed

lemmas trigger_cmd_defs =
  SNDRV_PCM_TRIGGER_STOP_def SNDRV_PCM_TRIGGER_START_def
  SNDRV_PCM_TRIGGER_SUSPEND_def SNDRV_PCM_TRIGGER_RESUME_def

lemmas run_defs =
  pcie_audio_pcm_open_def pcie_audio_pcm_close_def pcie_audio_hw_params_def
  hw_params_after_setup_def setup_dma_descriptors_def
  pcie_audio_trigger_def setup_ring_def hw_params_dma_regs_def
  dma_free_coherent_def get_stream_def set_stream_def trigger_cmd_defs Let_def


text \<open>
  C5, as the code has it. Neither \<open>pcie_audio_pcm_close\<close> nor the rebuild at the head
  of \<open>setup_dma_descriptors\<close> reads or clears the enable register before it releases the
  ring. The ring of a direction is released only while its enable register is 0 when
  the register is 0 at the start and the calls come in the order the sound core keeps:
  close and hw_params for that direction only when no start or resume has come since its
  last stop, suspend or prepare. Interrupts and calls for the other direction may come
  at any point.
\<close>

theorem ring_freed_only_disabled:
  assumes "regs chip (enable_reg dir) = 0" and "frees_stopped dir False xs"
  shows "\<not> freed_while_enabled dir (regs chip (enable_reg dir))
            (new_events chip (pcm_run xs chip))"
  using run_safe [OF assms(2), of chip] assms(1) by simp

theorem ring_freed_only_disabled_witness:
  "regs zero_chip (enable_reg SNDRV_PCM_STREAM_PLAYBACK) = 0 \<and>
   frees_stopped SNDRV_PCM_STREAM_PLAYBACK False ops_start_stop_close \<and>
   \<not> freed_while_enabled SNDRV_PCM_STREAM_PLAYBACK
       (regs zero_chip (enable_reg SNDRV_PCM_STREAM_PLAYBACK))
       (new_events zero_chip (pcm_run ops_start_stop_close zero_chip)) \<and>
   last (events (pcm_run ops_start_stop_close zero_chip))
     = DmaFree SNDRV_PCM_STREAM_PLAYBACK 0x20000000"
proof -
  have h1: "regs zero_chip (enable_reg SNDRV_PCM_STREAM_PLAYBACK) = 0"
    by (simp add: zero_chip_def)
  have h2: "frees_stopped SNDRV_PCM_STREAM_PLAYBACK False ops_start_stop_close"
    by (simp add: ops_start_stop_close_def trigger_cmd_defs en_defs)
  have l: "last (events (pcm_run ops_start_stop_close zero_chip))
            = DmaFree SNDRV_PCM_STREAM_PLAYBACK 0x20000000"
    by (simp add: ops_start_stop_close_def run_defs pcie_audio_prepare_def irq_defs
        irq_status_def pcie_audio_read_def ENOMEM_def reg_defs
        zero_chip_def zero_stream_def DMA_DESC_COUNT_def
        del: init_descriptors.simps)
  from ring_freed_only_disabled [OF h1 h2] h1 h2 l show ?thesis by simp
qed

text \<open>
  C5, as the claim has it, fails: open, hw_params, start, close on playback releases the
  ring right after 1 was written to the playback enable register, with no write to that
  register in between.
\<close>

theorem close_while_started_counterexample:
  "regs zero_chip (enable_reg SNDRV_PCM_STREAM_PLAYBACK) = 0 \<and>
   new_events zero_chip (pcm_run ops_start_close zero_chip)
     = hw_params_writes 0x20000000 runtime_8x4096 SNDRV_PCM_STREAM_PLAYBACK
         params_96k_24bit_stereo
       @ [RegWrite REG_DMA_PB_IRQ_EN 1, RegWrite REG_CTRL_PB_ENABLE 1,
          DmaFree SNDRV_PCM_STREAM_PLAYBACK 0x20000000] \<and>
   freed_while_enabled SNDRV_PCM_STREAM_PLAYBACK
     (regs zero_chip (enable_reg SNDRV_PCM_STREAM_PLAYBACK))
     (new_events zero_chip (pcm_run ops_start_close zero_chip))"
proof -
  have e: "events (pcm_run ops_start_close zero_chip)
     = hw_params_writes 0x20000000 runtime_8x4096 SNDRV_PCM_STREAM_PLAYBACK
         params_96k_24bit_stereo
       @ [RegWrite REG_DMA_PB_IRQ_EN 1, RegWrite REG_CTRL_PB_ENABLE 1,
          DmaFree SNDRV_PCM_STREAM_PLAYBACK 0x20000000]"
    by (simp add: ops_start_close_def run_defs hw_params_writes_def ENOMEM_def
        zero_chip_def zero_stream_def DMA_DESC_COUNT_def
        del: init_descriptors.simps)
  have z: "events zero_chip = []" by (simp add: zero_chip_def)
  have n: "new_events zero_chip (pcm_run ops_start_close zero_chip)
             = events (pcm_run ops_start_close zero_chip)"
    by (simp add: new_events_def z)
  show ?thesis
    unfolding n e
    by (simp add: zero_chip_def hw_params_writes_def Let_def en_defs freed_append)
qed

end
